theory Spec2Isabelle
  imports Main "HOL-Library.Word"
begin

section \<open>Text, bytes and errors\<close>

text \<open>
  A Python \<open>str\<close> is a sequence of Unicode code points, so text is a list of
  code points (natural numbers); \<open>bytes\<close> is a list of 8-bit words. A raise of
  the source is the left summand of a result.
\<close>

type_synonym pystr = "nat list"

type_synonym pybytes = "8 word list"

datatype py_error =
    ValueError
  | KeyError pystr
  | UnboundLocalError pystr
  | UnicodeEncodeError
  | TypeError
  | InvalidSignature

text \<open>
  The code points of an ASCII literal of the source. Single characters are written as
  their code points: 10 is the line feed, 13 the carriage return, 43 \<open>+\<close>,
  45 \<open>-\<close>, 58 \<open>:\<close>, 59 \<open>;\<close>, 61 \<open>=\<close>, 95 \<open>_\<close>; the digits are
  48 to 57, the capital letters 65 to 90 and the small letters 97 to 122.
\<close>

definition str :: "string \<Rightarrow> pystr" where
  "str s = map of_char s"

text \<open>The bytes of an ASCII literal.\<close>

definition ascii_bytes :: "string \<Rightarrow> pybytes" where
  "ascii_bytes s = map of_char s"

definition is_ascii :: "pystr \<Rightarrow> bool" where
  "is_ascii s = list_all (\<lambda>c. c < 128) s"

text \<open>Sequencing of results: the first raise ends the computation.\<close>

definition bind :: "py_error + 'a \<Rightarrow> ('a \<Rightarrow> py_error + 'b) \<Rightarrow> py_error + 'b" where
  "bind m f = (case m of Inl e \<Rightarrow> Inl e | Inr x \<Rightarrow> f x)"

text \<open>What an f-string makes of a value that may be \<open>None\<close>.\<close>

definition format_opt :: "pystr option \<Rightarrow> pystr" where
  "format_opt v = (case v of None \<Rightarrow> str ''None'' | Some x \<Rightarrow> x)"

text \<open>The truth value of a value that is \<open>None\<close> or a \<open>str\<close>.\<close>

definition truthy :: "pystr option \<Rightarrow> bool" where
  "truthy v = (case v of None \<Rightarrow> False | Some x \<Rightarrow> x \<noteq> [])"

subsection \<open>\<open>str.encode("utf-8")\<close>\<close>

text \<open>
  The strict UTF-8 codec: one to four bytes per code point, and
  \<open>UnicodeEncodeError\<close> on a surrogate code point (U+D800 to U+DFFF), which a
  Python \<open>str\<close> may hold. Python has no code point above U+10FFFF; the last
  branch is only reached by such a code point.
\<close>

definition utf8_char :: "nat \<Rightarrow> py_error + pybytes" where
  "utf8_char c =
     (if c < 0x80 then Inr [of_nat c]
      else if c < 0x800 then
        Inr [of_nat (0xC0 + c div 0x40), of_nat (0x80 + c mod 0x40)]
      else if 0xD800 \<le> c \<and> c < 0xE000 then Inl UnicodeEncodeError
      else if c < 0x10000 then
        Inr [of_nat (0xE0 + c div 0x1000), of_nat (0x80 + c div 0x40 mod 0x40),
             of_nat (0x80 + c mod 0x40)]
      else
        Inr [of_nat (0xF0 + c div 0x40000), of_nat (0x80 + c div 0x1000 mod 0x40),
             of_nat (0x80 + c div 0x40 mod 0x40), of_nat (0x80 + c mod 0x40)])"

fun encode_utf8 :: "pystr \<Rightarrow> py_error + pybytes" where
  "encode_utf8 [] = Inr []"
| "encode_utf8 (c # cs) =
     bind (utf8_char c) (\<lambda>bs. bind (encode_utf8 cs) (\<lambda>rest. Inr (bs @ rest)))"

subsection \<open>\<open>bytes.hex()\<close> and \<open>bytes.fromhex\<close>\<close>

definition hexdigit :: "nat \<Rightarrow> nat" where
  "hexdigit d = (if d < 10 then 48 + d else 87 + d)"

definition hex :: "pybytes \<Rightarrow> pystr" where
  "hex bs = concat (map (\<lambda>b. [hexdigit (unat b div 16), hexdigit (unat b mod 16)]) bs)"

text \<open>The value of a hexadecimal digit \<open>0-9\<close>, \<open>a-f\<close>, \<open>A-F\<close>.\<close>

definition hexval :: "nat \<Rightarrow> nat option" where
  "hexval c =
     (if 48 \<le> c \<and> c \<le> 57 then Some (c - 48)
      else if 97 \<le> c \<and> c \<le> 102 then Some (c - 87)
      else if 65 \<le> c \<and> c \<le> 70 then Some (c - 55)
      else None)"

text \<open>The ASCII whitespace that \<open>bytes.fromhex\<close> skips between byte pairs.\<close>

definition c_isspace :: "nat \<Rightarrow> bool" where
  "c_isspace c = (c = 32 \<or> (9 \<le> c \<and> c \<le> 13))"

text \<open>
  \<open>bytes.fromhex\<close>: whitespace is skipped before a pair of digits, never inside
  one; any other character, and a digit without its partner, is a \<open>ValueError\<close>.
\<close>

fun fromhex :: "pystr \<Rightarrow> py_error + pybytes" where
  "fromhex [] = Inr []"
| "fromhex (c # cs) =
     (if c_isspace c then fromhex cs
      else
        (case hexval c of
           None \<Rightarrow> Inl ValueError
         | Some hi \<Rightarrow>
             (case cs of
                [] \<Rightarrow> Inl ValueError
              | d # ds \<Rightarrow>
                  (case hexval d of
                     None \<Rightarrow> Inl ValueError
                   | Some lo \<Rightarrow>
                       bind (fromhex ds) (\<lambda>rest. Inr (of_nat (16 * hi + lo) # rest))))))"

section \<open>Signing and verification (shared/security.py)\<close>

text \<open>
  The key objects come from the \<open>cryptography\<close> library. A private key is its
  \<open>sign\<close> method, a public key its \<open>verify\<close> method, which takes the signature
  and the data and raises \<open>InvalidSignature\<close> (or returns nothing).
\<close>

type_synonym private_key = "pybytes \<Rightarrow> pybytes"

type_synonym public_key = "pybytes \<Rightarrow> pybytes \<Rightarrow> py_error + unit"

text \<open>A keypair \<open>K\<close>: \<open>priv K\<close> is \<open>K.private\<close>, \<open>pub K\<close> is \<open>K.public\<close>.\<close>

record keypair =
  priv :: private_key
  pub :: public_key

definition canonical_endorsement_string :: "pystr \<Rightarrow> py_error + pybytes" where
  "canonical_endorsement_string endorsee_key_b64 =
     encode_utf8 (str ''endorse:'' @ endorsee_key_b64)"

definition sign_endorsement :: "private_key \<Rightarrow> pystr \<Rightarrow> py_error + pystr" where
  "sign_endorsement private_key endorsee_key_b64 =
     bind (canonical_endorsement_string endorsee_key_b64)
       (\<lambda>canonical. let sig = private_key canonical in Inr (hex sig))"

text \<open>
  The canonical bytes are built outside the \<open>try\<close>; \<open>except Exception\<close> turns
  every raise of \<open>bytes.fromhex\<close> and of \<open>verify\<close> into \<open>False\<close>.
\<close>

definition try_verify :: "public_key \<Rightarrow> pystr \<Rightarrow> pybytes \<Rightarrow> bool" where
  "try_verify public_key signature_hex canonical =
     (case bind (fromhex signature_hex) (\<lambda>sig. public_key sig canonical) of
        Inr _ \<Rightarrow> True
      | Inl _ \<Rightarrow> False)"

definition verify_endorsement_signature ::
    "public_key \<Rightarrow> pystr \<Rightarrow> pystr \<Rightarrow> py_error + bool" where
  "verify_endorsement_signature public_key endorsee_key_b64 signature_hex =
     bind (canonical_endorsement_string endorsee_key_b64)
       (\<lambda>canonical. Inr (try_verify public_key signature_hex canonical))"

definition canonical_feed_string :: "pystr \<Rightarrow> pystr \<Rightarrow> pystr \<Rightarrow> py_error + pybytes" where
  "canonical_feed_string pub_date title description_plain =
     encode_utf8 (pub_date @ str ''\<newline>'' @ title @ str ''\<newline>'' @ description_plain)"

text \<open>
  \<open>sign_feed_item\<close> also prints the canonical text and the signature; the line
  printed does not reach the result and is left out.
\<close>

definition sign_feed_item :: "private_key \<Rightarrow> pystr \<Rightarrow> pystr \<Rightarrow> pystr \<Rightarrow> py_error + pystr" where
  "sign_feed_item private_key pub_date title description_plain =
     bind (canonical_feed_string pub_date title description_plain)
       (\<lambda>canonical. let sig = private_key canonical in Inr (hex sig))"

definition verify_feed_signature ::
    "public_key \<Rightarrow> pystr \<Rightarrow> pystr \<Rightarrow> pystr \<Rightarrow> pystr \<Rightarrow> py_error + bool" where
  "verify_feed_signature public_key pub_date title description_plain signature_hex =
     bind (canonical_feed_string pub_date title description_plain)
       (\<lambda>canonical. Inr (try_verify public_key signature_hex canonical))"

text \<open>
  The specification's words for the two canonical forms: the fields joined by a
  separator (\<open>sep.join(parts)\<close>), then encoded.
\<close>

fun join :: "pystr \<Rightarrow> pystr list \<Rightarrow> pystr" where
  "join sep [] = []"
| "join sep [x] = x"
| "join sep (x # y # ys) = x @ sep @ join sep (y # ys)"

definition spec_feed_bytes :: "pystr \<Rightarrow> pystr \<Rightarrow> pystr \<Rightarrow> py_error + pybytes" where
  "spec_feed_bytes d t s = encode_utf8 (join (str ''\<newline>'') [d, t, s])"

definition spec_endorsement_bytes :: "pystr \<Rightarrow> py_error + pybytes" where
  "spec_endorsement_bytes k = encode_utf8 (str ''endorse:'' @ k)"


text \<open>
  A signature text that cannot be a hex encoding: it holds a character that is neither
  a hexadecimal digit nor skipped whitespace, or an odd number of digits.
\<close>

definition malformed_hex :: "pystr \<Rightarrow> bool" where
  "malformed_hex s =
     (list_ex (\<lambda>c. hexval c = None \<and> \<not> c_isspace c) s
      \<or> odd (length (filter (\<lambda>c. \<not> c_isspace c) s)))"

section \<open>String methods used by the profile parser\<close>

text \<open>\<open>str.isspace\<close> for one code point: the whitespace \<open>str.strip()\<close> removes.\<close>

definition py_isspace :: "nat \<Rightarrow> bool" where
  "py_isspace c =
     ((9 \<le> c \<and> c \<le> 13) \<or> (28 \<le> c \<and> c \<le> 32) \<or> c = 0x85 \<or> c = 0xA0 \<or> c = 0x1680
      \<or> (0x2000 \<le> c \<and> c \<le> 0x200A) \<or> c = 0x2028 \<or> c = 0x2029 \<or> c = 0x202F
      \<or> c = 0x205F \<or> c = 0x3000)"

definition strip :: "pystr \<Rightarrow> pystr" where
  "strip s = rev (dropWhile py_isspace (rev (dropWhile py_isspace s)))"

text \<open>The line boundaries of \<open>str.splitlines()\<close>, apart from the pair CR LF.\<close>

definition is_linebreak :: "nat \<Rightarrow> bool" where
  "is_linebreak c =
     ((10 \<le> c \<and> c \<le> 13) \<or> (28 \<le> c \<and> c \<le> 30) \<or> c = 0x85 \<or> c = 0x2028 \<or> c = 0x2029)"

text \<open>
  \<open>str.splitlines()\<close>: \<open>cur\<close> is the line being read. CR LF is one boundary, and
  no empty line follows a boundary that ends the text.
\<close>

fun splitlines_from :: "pystr \<Rightarrow> pystr \<Rightarrow> pystr list" where
  "splitlines_from cur [] = (if cur = [] then [] else [cur])"
| "splitlines_from cur (c # cs) =
     (if c = 13 then
        (case cs of
           [] \<Rightarrow> [cur]
         | d # ds \<Rightarrow> if d = 10 then cur # splitlines_from [] ds
                    else cur # splitlines_from [] (d # ds))
      else if is_linebreak c then cur # splitlines_from [] cs
      else splitlines_from (cur @ [c]) cs)"

definition splitlines :: "pystr \<Rightarrow> pystr list" where
  "splitlines s = splitlines_from [] s"

definition startswith :: "pystr \<Rightarrow> pystr \<Rightarrow> bool" where
  "startswith s prefix = (take (length prefix) s = prefix)"

text \<open>\<open>s.split(c)\<close> for a one-character separator: always at least one part.\<close>

fun split_on :: "nat \<Rightarrow> pystr \<Rightarrow> pystr list" where
  "split_on c [] = [[]]"
| "split_on c (x # xs) =
     (if x = c then [] # split_on c xs
      else (case split_on c xs of p # ps \<Rightarrow> (x # p) # ps | [] \<Rightarrow> [[x]]))"

text \<open>\<open>s.split(c, 1)\<close>: two parts around the first \<open>c\<close>, or \<open>s\<close> alone.\<close>

definition split_1 :: "nat \<Rightarrow> pystr \<Rightarrow> pystr list" where
  "split_1 c s =
     (if c \<in> set s then [takeWhile (\<lambda>x. x \<noteq> c) s, tl (dropWhile (\<lambda>x. x \<noteq> c) s)]
      else [s])"

text \<open>
  \<open>str.upper()\<close> and \<open>str.lower()\<close> on ASCII letters. The case mappings of other
  code points are tables of the Unicode database; the embedding leaves such code
  points as they are, and the theorems that rest on a case mapping are stated for
  ASCII text.
\<close>

definition upper :: "pystr \<Rightarrow> pystr" where
  "upper s = map (\<lambda>c. if 97 \<le> c \<and> c \<le> 122 then c - 32 else c) s"

definition lower :: "pystr \<Rightarrow> pystr" where
  "lower s = map (\<lambda>c. if 65 \<le> c \<and> c \<le> 90 then c + 32 else c) s"

subsection \<open>\<open>int(s)\<close> and \<open>str(i)\<close>\<close>

definition is_digit :: "nat \<Rightarrow> bool" where
  "is_digit c = (48 \<le> c \<and> c \<le> 57)"

text \<open>Decimal digits, with single underscores allowed between two digits.\<close>

fun digit_run :: "pystr \<Rightarrow> bool" where
  "digit_run [] = False"
| "digit_run [c] = is_digit c"
| "digit_run (c # d # r) =
     (is_digit c \<and> (if d = 95 then digit_run r else digit_run (d # r)))"

definition digits_value :: "pystr \<Rightarrow> nat" where
  "digits_value ds = foldl (\<lambda>a c. 10 * a + (c - 48)) 0 ds"

text \<open>The interpreter's default limit on the digits of an integer text.\<close>

definition int_max_str_digits :: nat where
  "int_max_str_digits = 4300"

text \<open>
  \<open>int(s)\<close> on ASCII text: ASCII whitespace around an optional sign and a digit run;
  \<open>ValueError\<close> on anything else and on more digits than the limit. (Python also
  reads the decimal digits of other scripts; those are outside the embedding.)
\<close>

definition py_int :: "pystr \<Rightarrow> py_error + int" where
  "py_int s =
     (let t = rev (dropWhile c_isspace (rev (dropWhile c_isspace s)));
          neg = (t \<noteq> [] \<and> hd t = 45);
          body = (if t \<noteq> [] \<and> (hd t = 45 \<or> hd t = 43) then tl t else t);
          ds = filter is_digit body
      in if digit_run body \<and> length ds \<le> int_max_str_digits
         then Inr (if neg then - int (digits_value ds) else int (digits_value ds))
         else Inl ValueError)"

fun digits10 :: "nat \<Rightarrow> pystr" where
  "digits10 n = (if n < 10 then [48 + n] else digits10 (n div 10) @ [48 + n mod 10])"

declare digits10.simps [simp del]

text \<open>\<open>str(i)\<close>, as an f-string formats an \<open>int\<close>; the same digit limit applies.\<close>

definition str_int :: "int \<Rightarrow> py_error + pystr" where
  "str_int i =
     (let ds = digits10 (nat \<bar>i\<bar>)
      in if length ds > int_max_str_digits then Inl ValueError
         else Inr (if i < 0 then 45 # ds else ds))"

section \<open>The identity record (shared/vcard.py)\<close>

record PublicKey =
  alg :: pystr
  key_b64 :: pystr
  pref :: "int option"

record Endorsement =
  endorsee_key_b64 :: pystr
  signature_hex :: pystr
  date :: "pystr option"
  confidence :: "pystr option"

text \<open>
  \<open>RevokedKey\<close> has the fields \<open>key_b64\<close>, \<open>reason\<close> and \<open>date\<close>; they carry a
  prefix here, since the records share one name space.
\<close>

record RevokedKey =
  rk_key_b64 :: pystr
  rk_reason :: "pystr option"
  rk_date :: "pystr option"

record Profile =
  fn :: "pystr option"
  photo :: "pystr option"
  capabilities :: "pystr list"
  public_keys :: "PublicKey list"
  endorsements :: "Endorsement list"
  revocations :: "RevokedKey list"
  raw :: pystr

text \<open>
  \<open>parse_params\<close>: the parts after the property name; a part with \<open>=\<close> stores its
  value under the upper-cased name, a later part overwriting an earlier one.
\<close>

definition add_param :: "(pystr \<rightharpoonup> pystr) \<Rightarrow> pystr \<Rightarrow> (pystr \<rightharpoonup> pystr)" where
  "add_param params p =
     (if 61 \<in> set p then
        (case split_1 61 p of [k, v] \<Rightarrow> params(upper k \<mapsto> v) | _ \<Rightarrow> params)
      else params)"

definition parse_params :: "pystr \<Rightarrow> (pystr \<rightharpoonup> pystr)" where
  "parse_params header = foldl add_param Map.empty (tl (split_on 59 header))"

text \<open>
  One pass of the loop of \<open>parse_vcard\<close>. \<open>header, value = line.split(":", 1)\<close>
  raises \<open>ValueError\<close> when the line has no colon, and \<open>int(params["PREF"])\<close>
  raises it when the value is no integer; nothing in the parser catches either.
\<close>

definition parse_line :: "Profile \<Rightarrow> pystr \<Rightarrow> py_error + Profile" where
  "parse_line profile line =
     (if startswith line (str ''FN:'') then Inr (profile\<lparr>fn := Some (drop 3 line)\<rparr>)
      else if startswith line (str ''PHOTO:'') then Inr (profile\<lparr>photo := Some (drop 6 line)\<rparr>)
      else if startswith line (str ''KEY;'') then
        (case split_1 58 line of
           [header, value] \<Rightarrow>
             (let params = parse_params header;
                  alg_v = lower (case params (str ''ALG'') of None \<Rightarrow> [] | Some a \<Rightarrow> a)
              in bind (case params (str ''PREF'') of
                         None \<Rightarrow> Inr None
                       | Some x \<Rightarrow> bind (py_int x) (\<lambda>n. Inr (Some n)))
                   (\<lambda>pref_v. Inr (profile\<lparr>public_keys := public_keys profile @
                      [\<lparr>alg = alg_v, key_b64 = value, pref = pref_v\<rparr>]\<rparr>)))
         | _ \<Rightarrow> Inl ValueError)
      else if startswith line (str ''REVKEY;'') then
        (case split_1 58 line of
           [header, value] \<Rightarrow>
             (let params = parse_params header
              in Inr (profile\<lparr>revocations := revocations profile @
                   [\<lparr>rk_key_b64 = value, rk_reason = params (str ''REASON''),
                     rk_date = params (str ''DATE'')\<rparr>]\<rparr>))
         | _ \<Rightarrow> Inl ValueError)
      else if startswith line (str ''X-ENDORSE;'') then
        (case split_1 58 line of
           [header, value] \<Rightarrow>
             (let params = parse_params header
              in Inr (profile\<lparr>endorsements := endorsements profile @
                   [\<lparr>endorsee_key_b64 = value,
                     signature_hex = (case params (str ''SIG'') of None \<Rightarrow> [] | Some x \<Rightarrow> x),
                     date = params (str ''DATE''),
                     confidence = params (str ''CONFIDENCE'')\<rparr>]\<rparr>))
         | _ \<Rightarrow> Inl ValueError)
      else Inr profile)"

fun parse_lines :: "Profile \<Rightarrow> pystr list \<Rightarrow> py_error + Profile" where
  "parse_lines profile [] = Inr profile"
| "parse_lines profile (line # lines) =
     bind (parse_line profile line) (\<lambda>profile'. parse_lines profile' lines)"

text \<open>The stripped, non-empty lines of the text, in order.\<close>

definition vcard_lines :: "pystr \<Rightarrow> pystr list" where
  "vcard_lines text = map strip (filter (\<lambda>line. strip line \<noteq> []) (splitlines text))"

definition new_profile :: "pystr \<Rightarrow> Profile" where
  "new_profile text =
     \<lparr>fn = None, photo = None, capabilities = [], public_keys = [], endorsements = [],
      revocations = [], raw = text\<rparr>"

definition parse_vcard :: "pystr \<Rightarrow> py_error + Profile" where
  "parse_vcard text = parse_lines (new_profile text) (vcard_lines text)"

subsection \<open>Notions of the specification about lines\<close>

text \<open>The lines the loop has a branch for.\<close>

definition recognized :: "pystr \<Rightarrow> bool" where
  "recognized line =
     (startswith line (str ''FN:'') \<or> startswith line (str ''PHOTO:'')
      \<or> startswith line (str ''KEY;'') \<or> startswith line (str ''REVKEY;'')
      \<or> startswith line (str ''X-ENDORSE;''))"

text \<open>\<open>int(x)\<close> returns: \<open>x\<close> is an integer text.\<close>

definition accepted_int :: "pystr \<Rightarrow> bool" where
  "accepted_int x = (case py_int x of Inr _ \<Rightarrow> True | Inl _ \<Rightarrow> False)"

text \<open>
  A line the loop gets through: a \<open>KEY\<close>, \<open>REVKEY\<close> or \<open>X-ENDORSE\<close> line has a
  colon, and the \<open>PREF\<close> parameter of a \<open>KEY\<close> line, when present, is an integer text.
\<close>

definition well_formed_line :: "pystr \<Rightarrow> bool" where
  "well_formed_line line =
     (if startswith line (str ''KEY;'') then
        58 \<in> set line \<and>
        (case parse_params (takeWhile (\<lambda>x. x \<noteq> 58) line) (str ''PREF'') of
           None \<Rightarrow> True
         | Some x \<Rightarrow> accepted_int x)
      else if startswith line (str ''REVKEY;'') \<or> startswith line (str ''X-ENDORSE;'')
      then 58 \<in> set line
      else True)"

text \<open>
  Two parameters that differ at most in the case of the name: both \<open>name=value\<close>
  with the same upper-cased name and the same value, or both without \<open>=\<close>.
\<close>

definition same_param :: "pystr \<Rightarrow> pystr \<Rightarrow> bool" where
  "same_param p q =
     (if 61 \<in> set p then
        61 \<in> set q
        \<and> upper (takeWhile (\<lambda>x. x \<noteq> 61) p) = upper (takeWhile (\<lambda>x. x \<noteq> 61) q)
        \<and> tl (dropWhile (\<lambda>x. x \<noteq> 61) p) = tl (dropWhile (\<lambda>x. x \<noteq> 61) q)
      else 61 \<notin> set q)"

text \<open>Two property headers whose parameters agree in this way, one by one.\<close>

definition same_params :: "pystr \<Rightarrow> pystr \<Rightarrow> bool" where
  "same_params h1 h2 = list_all2 same_param (tl (split_on 59 h1)) (tl (split_on 59 h2))"

text \<open>The three properties that carry parameters.\<close>

definition property_prefix :: "pystr \<Rightarrow> bool" where
  "property_prefix pre =
     (pre = str ''KEY;'' \<or> pre = str ''REVKEY;'' \<or> pre = str ''X-ENDORSE;'')"

text \<open>A line of the given property whose value, the text after the first colon, is \<open>k\<close>.\<close>

definition line_for :: "string \<Rightarrow> pystr \<Rightarrow> pystr \<Rightarrow> bool" where
  "line_for property k line =
     (startswith line (str property) \<and> 58 \<in> set line
      \<and> tl (dropWhile (\<lambda>x. x \<noteq> 58) line) = k)"

subsection \<open>The trust query\<close>

datatype trust = Revoked | Trusted | Unknown

text \<open>
  Modelled from the spec: the trust query over a parsed Profile, which no source file
  holds. A key whose identifier is in the RevokedKey list is revoked, whatever the
  PublicKey list and the preference ranks say; otherwise a listed key is trusted.
\<close>

definition key_trust :: "Profile \<Rightarrow> pystr \<Rightarrow> trust" where
  "key_trust profile k =
     (if k \<in> set (map rk_key_b64 (revocations profile)) then Revoked
      else if k \<in> set (map key_b64 (public_keys profile)) then Trusted
      else Unknown)"

subsection \<open>\<open>build_vcard_content\<close>\<close>

text \<open>
  A key of the \<open>keys\<close> argument is a dict; a field is \<open>None\<close> when the dict has
  no such entry. \<open>pref\<close> is an \<open>int\<close>, as in \<open>PublicKey\<close>.
\<close>

record key_dict =
  kd_alg :: "pystr option"
  kd_key_b64 :: "pystr option"
  kd_pref :: "int option"
  kd_encoding :: "pystr option"

text \<open>
  The keyword arguments, each \<open>None\<close> or a \<open>str\<close>; \<open>custom_attributes\<close> is a
  dict, given by its items in order.
\<close>

record vcard_args =
  v_fn :: "pystr option"
  v_n :: "pystr option"
  v_nickname :: "pystr option"
  v_lang :: "pystr option"
  v_gender :: "pystr option"
  v_email :: "pystr option"
  v_categories :: "pystr option"
  v_bday :: "pystr option"
  v_anniversary :: "pystr option"
  v_kind :: "pystr option"
  v_adr :: "pystr option"
  v_tel :: "pystr option"
  v_impp :: "pystr option"
  v_photo :: "pystr option"
  v_note :: "pystr option"
  v_url :: "pystr option"
  v_source :: "pystr option"
  v_custom_attributes :: "(pystr \<times> pystr) list option"
  v_keys :: "key_dict list option"

text \<open>\<open>if v: vcard_content += f"<pre>{v}<post>"\<close>: the text one field adds.\<close>

definition field_line :: "pystr \<Rightarrow> pystr option \<Rightarrow> pystr \<Rightarrow> pystr" where
  "field_line pre v post =
     (case v of None \<Rightarrow> [] | Some x \<Rightarrow> if x = [] then [] else pre @ x @ post)"

text \<open>\<open>key[name]\<close>: \<open>KeyError\<close> when the dict has no such entry.\<close>

definition subscript :: "pystr option \<Rightarrow> string \<Rightarrow> py_error + pystr" where
  "subscript entry name = (case entry of None \<Rightarrow> Inl (KeyError (str name)) | Some x \<Rightarrow> Inr x)"

text \<open>
  The line of one key. The f-string evaluates and formats its fields from left to
  right: \<open>key['alg'].lower()\<close>, \<open>key.get('pref', 1)\<close>, \<open>key['encoding']\<close>,
  \<open>key['key_b64']\<close>.
\<close>

definition key_line :: "key_dict \<Rightarrow> py_error + pystr" where
  "key_line key =
     bind (subscript (kd_alg key) ''alg'') (\<lambda>a.
     bind (str_int (case kd_pref key of None \<Rightarrow> 1 | Some p \<Rightarrow> p)) (\<lambda>p.
     bind (subscript (kd_encoding key) ''encoding'') (\<lambda>e.
     bind (subscript (kd_key_b64 key) ''key_b64'') (\<lambda>k.
       Inr (str ''KEY;TYPE=public;ALG='' @ lower a @ str '';PREF='' @ p
            @ str '';ENCODING='' @ e @ str '':'' @ k @ str ''\<newline>'')))))"

fun key_lines :: "pystr \<Rightarrow> key_dict list \<Rightarrow> py_error + pystr" where
  "key_lines vcard_content [] = Inr vcard_content"
| "key_lines vcard_content (key # keys) =
     bind (key_line key) (\<lambda>l. key_lines (vcard_content @ l) keys)"

definition custom_line :: "pystr \<times> pystr \<Rightarrow> pystr" where
  "custom_line item = fst item @ str '':'' @ snd item @ str ''\<newline>''"

definition build_vcard_content :: "vcard_args \<Rightarrow> py_error + pystr" where
  "build_vcard_content a =
     (let custom_attributes = (case v_custom_attributes a of None \<Rightarrow> [] | Some d \<Rightarrow> d);
          vcard_content = str ''BEGIN:VCARD\<newline>VERSION:4.0\<newline>''
            @ field_line (str ''FN:'') (v_fn a) (str ''\<newline>'')
            @ field_line (str ''N:'') (v_n a) (str '';;;;\<newline>'')
            @ field_line (str ''NICKNAME:'') (v_nickname a) (str ''\<newline>'')
            @ field_line (str ''LANG:'') (v_lang a) (str ''\<newline>'')
            @ field_line (str ''GENDER:'') (v_gender a) (str ''\<newline>'')
            @ field_line (str ''EMAIL:'') (v_email a) (str ''\<newline>'')
            @ field_line (str ''CATEGORIES:'') (v_categories a) (str ''\<newline>'')
            @ field_line (str ''BDAY:'') (v_bday a) (str ''\<newline>'')
            @ field_line (str ''ANNIVERSARY:'') (v_anniversary a) (str ''\<newline>'')
            @ field_line (str ''KIND:'') (v_kind a) (str ''\<newline>'')
            @ field_line (str ''ADR:'') (v_adr a) (str ''\<newline>'')
            @ field_line (str ''TEL:'') (v_tel a) (str ''\<newline>'')
            @ field_line (str ''IMPP:'') (v_impp a) (str ''\<newline>'')
            @ field_line (str ''PHOTO:'') (v_photo a) (str ''\<newline>'')
            @ field_line (str ''NOTE;LANGUAGE=en-US:'') (v_note a) (str ''\<newline>'')
            @ field_line (str ''URL:'') (v_url a) (str ''\<newline>'')
            @ field_line (str ''SOURCE:'') (v_source a) (str ''\<newline>'')
      in bind (key_lines vcard_content (case v_keys a of None \<Rightarrow> [] | Some ks \<Rightarrow> ks))
           (\<lambda>vcard_content.
              Inr (vcard_content @ concat (map custom_line custom_attributes)
                   @ str ''END:VCARD'')))"

text \<open>The defaults of the keyword arguments: every one \<open>None\<close>.\<close>

definition default_args :: vcard_args where
  "default_args =
     \<lparr>v_fn = None, v_n = None, v_nickname = None, v_lang = None, v_gender = None,
      v_email = None, v_categories = None, v_bday = None, v_anniversary = None,
      v_kind = None, v_adr = None, v_tel = None, v_impp = None, v_photo = None,
      v_note = None, v_url = None, v_source = None, v_custom_attributes = None,
      v_keys = None\<rparr>"

text \<open>
  The specification's words for the output. The named fields in their fixed order,
  each with the text before and after its value.
\<close>

definition named_fields :: "vcard_args \<Rightarrow> (pystr \<times> pystr option \<times> pystr) list" where
  "named_fields a =
     [(str ''FN:'', v_fn a, str ''\<newline>''),
      (str ''N:'', v_n a, str '';;;;\<newline>''),
      (str ''NICKNAME:'', v_nickname a, str ''\<newline>''),
      (str ''LANG:'', v_lang a, str ''\<newline>''),
      (str ''GENDER:'', v_gender a, str ''\<newline>''),
      (str ''EMAIL:'', v_email a, str ''\<newline>''),
      (str ''CATEGORIES:'', v_categories a, str ''\<newline>''),
      (str ''BDAY:'', v_bday a, str ''\<newline>''),
      (str ''ANNIVERSARY:'', v_anniversary a, str ''\<newline>''),
      (str ''KIND:'', v_kind a, str ''\<newline>''),
      (str ''ADR:'', v_adr a, str ''\<newline>''),
      (str ''TEL:'', v_tel a, str ''\<newline>''),
      (str ''IMPP:'', v_impp a, str ''\<newline>''),
      (str ''PHOTO:'', v_photo a, str ''\<newline>''),
      (str ''NOTE;LANGUAGE=en-US:'', v_note a, str ''\<newline>''),
      (str ''URL:'', v_url a, str ''\<newline>''),
      (str ''SOURCE:'', v_source a, str ''\<newline>'')]"

text \<open>A field is populated when its value is neither absent nor empty.\<close>

definition populated :: "pystr \<times> pystr option \<times> pystr \<Rightarrow> bool" where
  "populated f = truthy (fst (snd f))"

text \<open>The line of a populated field.\<close>

definition rendered_field :: "pystr \<times> pystr option \<times> pystr \<Rightarrow> pystr" where
  "rendered_field f = fst f @ format_opt (fst (snd f)) @ snd (snd f)"

text \<open>
  A key the builder can render: the dict has \<open>alg\<close>, \<open>key_b64\<close> and \<open>encoding\<close>,
  the algorithm name is ASCII, and \<open>pref\<close> (1 when absent) has a decimal text.
\<close>

definition key_complete :: "key_dict \<Rightarrow> bool" where
  "key_complete key =
     (case (kd_alg key, kd_key_b64 key, kd_encoding key) of
        (Some a, Some k, Some e) \<Rightarrow>
          is_ascii a \<and>
          (case str_int (case kd_pref key of None \<Rightarrow> 1 | Some p \<Rightarrow> p) of
             Inr _ \<Rightarrow> True | Inl _ \<Rightarrow> False)
      | _ \<Rightarrow> False)"

text \<open>The \<open>KEY\<close> line of a key.\<close>

definition rendered_key :: "key_dict \<Rightarrow> pystr" where
  "rendered_key key =
     str ''KEY;TYPE=public;ALG='' @ lower (format_opt (kd_alg key))
     @ str '';PREF=''
     @ (case str_int (case kd_pref key of None \<Rightarrow> 1 | Some p \<Rightarrow> p) of
          Inr t \<Rightarrow> t | Inl _ \<Rightarrow> [])
     @ str '';ENCODING='' @ format_opt (kd_encoding key)
     @ str '':'' @ format_opt (kd_key_b64 key) @ str ''\<newline>''"

text \<open>
  The whole output: the two opening lines, a line for every populated field, a line
  for every key, a line for every custom attribute, and the closing line.
\<close>

definition rendered :: "vcard_args \<Rightarrow> pystr" where
  "rendered a =
     str ''BEGIN:VCARD\<newline>VERSION:4.0\<newline>''
     @ concat (map rendered_field (filter populated (named_fields a)))
     @ concat (map rendered_key (case v_keys a of None \<Rightarrow> [] | Some ks \<Rightarrow> ks))
     @ concat (map custom_line (case v_custom_attributes a of None \<Rightarrow> [] | Some d \<Rightarrow> d))
     @ str ''END:VCARD''"

section \<open>The feed builder (apps/feeds/lib)\<close>

subsection \<open>\<open>slugify\<close>\<close>

definition is_slug_char :: "nat \<Rightarrow> bool" where
  "is_slug_char c = ((97 \<le> c \<and> c \<le> 122) \<or> (48 \<le> c \<and> c \<le> 57))"

text \<open>
  \<open>re.sub(r"[^a-z0-9]+", "-", s)\<close>: every run of other characters becomes one
  hyphen; \<open>in_run\<close> says that the hyphen of the current run is already written.
\<close>

fun hyphenate_from :: "bool \<Rightarrow> pystr \<Rightarrow> pystr" where
  "hyphenate_from in_run [] = []"
| "hyphenate_from in_run (c # cs) =
     (if is_slug_char c then c # hyphenate_from False cs
      else if in_run then hyphenate_from True cs
      else 45 # hyphenate_from True cs)"

definition hyphenate :: "pystr \<Rightarrow> pystr" where
  "hyphenate s = hyphenate_from False s"

text \<open>
  \<open>nfkd\<close> is \<open>unicodedata.normalize("NFKD", _)\<close>, a table of the Unicode database
  taken as a parameter; \<open>encode("ascii", "ignore")\<close> drops what is not ASCII.
\<close>

definition slugify :: "(pystr \<Rightarrow> pystr) \<Rightarrow> pystr \<Rightarrow> pystr" where
  "slugify nfkd text =
     (let normalized = nfkd text;
          ascii_text = filter (\<lambda>c. c < 128) normalized;
          ascii_text = lower ascii_text;
          ascii_text = hyphenate ascii_text
      in rev (dropWhile (\<lambda>c. c = 45) (rev (dropWhile (\<lambda>c. c = 45) ascii_text))))"

subsection \<open>\<open>generate_rss\<close>\<close>

text \<open>
  An item is a dict; a field is \<open>None\<close> when the dict has no such entry. The date is
  carried as the text an f-string makes of it.
\<close>

record feed_item =
  item_id :: "pystr option"
  item_path :: "pystr option"
  item_date :: "pystr option"
  item_content :: "pystr option"
  item_title :: "pystr option"
  item_link :: "pystr option"

text \<open>The signing context \<open>sign\<close>: a dict with the entries \<open>key\<close> and \<open>id\<close>.\<close>

record sign_context =
  sign_key :: "private_key option"
  sign_id :: "pystr option"

text \<open>The \<open>Signature\<close> extension, and the \<open>Item\<close> and \<open>Feed\<close> objects of \<open>rfeed\<close>.\<close>

record Signature =
  signature_value :: pystr
  key_id :: "pystr option"

record Item =
  i_title :: "pystr option"
  i_link :: pystr
  i_description :: "pystr option"
  i_author :: pystr
  i_guid :: pystr
  i_pubDate :: pystr
  i_extensions :: "Signature option list"

record Feed =
  f_title :: "pystr option"
  f_link :: pystr
  f_description :: "pystr option"
  f_language :: pystr
  f_lastBuildDate :: pystr
  f_items :: "Item list"

text \<open>
  The local variables that live across the passes of the loop. \<open>title\<close> and
  \<open>description\<close> start as the arguments and are assigned in every pass;
  \<open>signature_value\<close> and \<open>signature_id\<close> are assigned only under \<open>if sign:\<close>, and
  are unbound (\<open>None\<close> at the outer level) until then.
\<close>

record rss_locals =
  l_title :: "pystr option"
  l_description :: "pystr option"
  l_signature_value :: "pystr option option"
  l_signature_id :: "pystr option option"
  l_feed_items :: "Item list"

text \<open>Reading a local variable: \<open>UnboundLocalError\<close> when it was never assigned.\<close>

definition read_local :: "'a option \<Rightarrow> string \<Rightarrow> py_error + 'a" where
  "read_local v name = (case v of None \<Rightarrow> Inl (UnboundLocalError (str name)) | Some x \<Rightarrow> Inr x)"

text \<open>The body of \<open>if sign:\<close>.\<close>

definition sign_item ::
    "sign_context \<Rightarrow> pystr \<Rightarrow> rss_locals \<Rightarrow> py_error + rss_locals" where
  "sign_item sign pub_date st =
     bind (case sign_key sign of
             None \<Rightarrow> Inr None
           | Some key \<Rightarrow>
               bind (sign_feed_item key pub_date (format_opt (l_title st))
                       (format_opt (l_description st)))
                 (\<lambda>sg. Inr (Some sg)))
       (\<lambda>signature_value.
          Inr (st\<lparr>l_signature_value := Some signature_value,
                  l_signature_id := Some (if truthy (sign_id sign) then sign_id sign else None)\<rparr>))"

text \<open>
  The one element of \<open>extensions\<close>:
  \<open>Signature(signature_value, sign["id"]) if signature_value and signature_id else None\<close>.
\<close>

definition extension ::
    "sign_context option \<Rightarrow> rss_locals \<Rightarrow> py_error + Signature option" where
  "extension sign st =
     bind (read_local (l_signature_value st) ''signature_value'') (\<lambda>signature_value.
       case signature_value of
         None \<Rightarrow> Inr None
       | Some sv \<Rightarrow>
           if sv = [] then Inr None
           else bind (read_local (l_signature_id st) ''signature_id'') (\<lambda>signature_id.
             if \<not> truthy signature_id then Inr None
             else (case sign of
                     None \<Rightarrow> Inl TypeError
                   | Some sg \<Rightarrow> Inr (Some \<lparr>signature_value = sv, key_id = sign_id sg\<rparr>))))"

text \<open>One pass of the loop over \<open>items\<close>.\<close>

definition rss_step ::
    "(pystr \<Rightarrow> pystr) \<Rightarrow> pystr \<Rightarrow> pystr \<times> pystr \<Rightarrow> sign_context option \<Rightarrow>
     rss_locals \<Rightarrow> feed_item \<Rightarrow> py_error + rss_locals" where
  "rss_step nfkd link author sign st item =
     bind (if truthy (item_id item) then Inr (format_opt (item_id item))
           else bind (subscript (item_path item) ''path'') (\<lambda>p. Inr (slugify nfkd p)))
       (\<lambda>id.
     bind (subscript (item_date item) ''date'') (\<lambda>pub_date.
     let st = st\<lparr>l_description := item_content item, l_title := item_title item\<rparr> in
     bind (case sign of None \<Rightarrow> Inr st | Some sg \<Rightarrow> sign_item sg pub_date st) (\<lambda>st.
     let item_link_v = (if truthy (item_link item) then format_opt (item_link item)
                        else link @ str ''/feed/'' @ id);
         author_v = fst author @ str '' ('' @ snd author @ str '')''
     in bind (extension sign st) (\<lambda>ext.
          Inr (st\<lparr>l_feed_items := l_feed_items st @
                 [\<lparr>i_title = l_title st, i_link = item_link_v,
                   i_description = l_description st, i_author = author_v, i_guid = id,
                   i_pubDate = pub_date, i_extensions = [ext]\<rparr>]\<rparr>)))))"

fun rss_loop ::
    "(pystr \<Rightarrow> pystr) \<Rightarrow> pystr \<Rightarrow> pystr \<times> pystr \<Rightarrow> sign_context option \<Rightarrow>
     rss_locals \<Rightarrow> feed_item list \<Rightarrow> py_error + rss_locals" where
  "rss_loop nfkd link author sign st [] = Inr st"
| "rss_loop nfkd link author sign st (item # items) =
     bind (rss_step nfkd link author sign st item)
       (\<lambda>st'. rss_loop nfkd link author sign st' items)"

text \<open>
  \<open>generate_rss\<close>, up to the \<open>Feed\<close> object whose \<open>rss()\<close> the source returns;
  \<open>author\<close> is the pair of \<open>author['name']\<close> and \<open>author['email']\<close>. An empty
  \<open>sign\<close> dict is as \<open>None\<close> to \<open>if sign:\<close>.
\<close>

definition generate_rss ::
    "(pystr \<Rightarrow> pystr) \<Rightarrow> pystr \<Rightarrow> pystr \<Rightarrow> pystr \<Rightarrow> pystr \<times> pystr \<Rightarrow> pystr \<Rightarrow> pystr \<Rightarrow>
     feed_item list \<Rightarrow> sign_context option \<Rightarrow> py_error + Feed" where
  "generate_rss nfkd title link description author language build_date items sign =
     bind (rss_loop nfkd link author sign
             \<lparr>l_title = Some title, l_description = Some description,
              l_signature_value = None, l_signature_id = None, l_feed_items = []\<rparr> items)
       (\<lambda>st. Inr \<lparr>f_title = l_title st, f_link = link, f_description = l_description st,
                   f_language = language, f_lastBuildDate = build_date,
                   f_items = l_feed_items st\<rparr>)"


section \<open>Properties of the codecs\<close>

lemma bind_simps [simp]:
  "bind (Inl e) f = Inl e" "bind (Inr x) f = f x"
  by (simp_all add: bind_def)

lemma encode_utf8_append:
  "encode_utf8 (a @ b) = bind (encode_utf8 a) (\<lambda>x. bind (encode_utf8 b) (\<lambda>y. Inr (x @ y)))"
proof (induction a)
  case Nil
  show ?case by (cases "encode_utf8 b") simp_all
next
  case (Cons c a)
  show ?case
  proof (cases "utf8_char c")
    case (Inl e) then show ?thesis by simp
  next
    case (Inr bs)
    then show ?thesis using Cons
      by (cases "encode_utf8 a"; cases "encode_utf8 b") simp_all
  qed
qed

lemma encode_utf8_error: "encode_utf8 s = Inl e \<Longrightarrow> e = UnicodeEncodeError"
proof (induction s)
  case Nil then show ?case by simp
next
  case (Cons c s)
  then show ?case
    by (cases "utf8_char c"; cases "encode_utf8 s")
       (auto simp: utf8_char_def split: if_splits)
qed

lemma encode_utf8_ascii: "is_ascii s \<Longrightarrow> encode_utf8 s = Inr (map of_nat s)"
  by (induction s) (simp_all add: is_ascii_def utf8_char_def)

lemma hexval_hexdigit: "d < 16 \<Longrightarrow> hexval (hexdigit d) = Some d"
  by (auto simp: hexval_def hexdigit_def)

lemma not_space_hexdigit: "d < 16 \<Longrightarrow> \<not> c_isspace (hexdigit d)"
  by (auto simp: c_isspace_def hexdigit_def)

lemma byte_of_nibbles: "of_nat (16 * (unat b div 16) + unat b mod 16) = (b :: 8 word)"
  by simp

lemma fromhex_hex: "fromhex (hex bs) = Inr bs"
proof (induction bs)
  case Nil show ?case by (simp add: hex_def)
next
  case (Cons b bs)
  have "unat b < 2 ^ LENGTH(8)" by (rule unsigned_less)
  then have d: "unat b div 16 < 16" by simp
  have m: "unat b mod 16 < 16" by simp
  from Cons show ?case
    using hexval_hexdigit [OF d] hexval_hexdigit [OF m] not_space_hexdigit [OF d]
    by (simp add: hex_def)
qed


lemma fromhex_error: "fromhex s = Inl e \<Longrightarrow> e = ValueError"
proof (induction s arbitrary: e rule: fromhex.induct)
  case 1 then show ?case by simp
next
  case (2 c cs)
  show ?case
  proof (cases "c_isspace c")
    case True with 2 show ?thesis by simp
  next
    case False
    with 2 show ?thesis
      by (auto simp: bind_def split: option.splits list.splits sum.splits)
  qed
qed

lemma hexval_space: "c_isspace c \<Longrightarrow> hexval c = None"
  by (auto simp: c_isspace_def hexval_def)

lemma fromhex_non_hex:
  "list_ex (\<lambda>c. hexval c = None \<and> \<not> c_isspace c) s \<Longrightarrow> fromhex s = Inl ValueError"
proof (induction s rule: fromhex.induct)
  case 1 then show ?case by simp
next
  case (2 c cs)
  show ?case
  proof (cases "c_isspace c")
    case True with 2 show ?thesis by simp
  next
    case sp: False
    show ?thesis
    proof (cases "hexval c")
      case None with sp show ?thesis by simp
    next
      case hi: (Some hi)
      show ?thesis
      proof (cases cs)
        case Nil with sp hi show ?thesis by simp
      next
        case (Cons d ds)
        show ?thesis
        proof (cases "hexval d")
          case None with sp hi Cons show ?thesis by simp
        next
          case lo: (Some lo)
          from "2.prems" hi lo Cons
          have "list_ex (\<lambda>c. hexval c = None \<and> \<not> c_isspace c) ds" by simp
          then have "fromhex ds = Inl ValueError"
            using "2.IH"(2) [OF sp hi Cons lo] by simp
          with sp hi Cons lo show ?thesis by simp
        qed
      qed
    qed
  qed
qed

lemma fromhex_odd:
  "odd (length (filter (\<lambda>c. \<not> c_isspace c) s)) \<Longrightarrow> fromhex s = Inl ValueError"
proof (induction s rule: fromhex.induct)
  case 1 then show ?case by simp
next
  case (2 c cs)
  show ?case
  proof (cases "c_isspace c")
    case True with 2 show ?thesis by simp
  next
    case sp: False
    show ?thesis
    proof (cases "hexval c")
      case None with sp show ?thesis by simp
    next
      case hi: (Some hi)
      show ?thesis
      proof (cases cs)
        case Nil with sp hi show ?thesis by simp
      next
        case (Cons d ds)
        show ?thesis
        proof (cases "hexval d")
          case None with sp hi Cons show ?thesis by simp
        next
          case lo: (Some lo)
          then have "\<not> c_isspace d" using hexval_space by fastforce
          with "2.prems" sp Cons
          have "odd (length (filter (\<lambda>c. \<not> c_isspace c) ds))" by simp
          then have "fromhex ds = Inl ValueError"
            using "2.IH"(2) [OF sp hi Cons lo] by simp
          with sp hi Cons lo show ?thesis by simp
        qed
      qed
    qed
  qed
qed

lemma fromhex_malformed: "malformed_hex s \<Longrightarrow> fromhex s = Inl ValueError"
  unfolding malformed_hex_def using fromhex_non_hex fromhex_odd by blast

lemma try_verify_iff:
  "try_verify pk sg c = (\<exists>sig. fromhex sg = Inr sig \<and> pk sig c = Inr ())"
  by (cases "fromhex sg") (auto simp: try_verify_def split: sum.splits)

text \<open>
  Claim C1. For all texts \<open>d\<close>, \<open>t\<close>, \<open>s\<close> the canonical feed-item bytes are the
  UTF-8 encoding of the three fields joined by single line feeds, in that order:
  the encodings of the fields with one byte \<open>0x0A\<close> between them. For the date
  \<open>2025-01-01T00:00:00Z\<close>, the title \<open>Hello\<close> and the description \<open>World\<close> they
  are the bytes of the ASCII text with the two line feeds. The signing path hands
  exactly these bytes to the private key and the verifying path exactly these bytes
  to the public key. (Where a field holds a surrogate code point there is no
  encoding, and all of them raise \<open>UnicodeEncodeError\<close>.)
\<close>

theorem canonical_feed_string_utf8_join:
  "canonical_feed_string d t s = spec_feed_bytes d t s
   \<and> canonical_feed_string d t s =
       bind (encode_utf8 d) (\<lambda>db. bind (encode_utf8 t) (\<lambda>tb. bind (encode_utf8 s)
         (\<lambda>sb. Inr (db @ [0x0A] @ tb @ [0x0A] @ sb))))
   \<and> canonical_feed_string (str ''2025-01-01T00:00:00Z'') (str ''Hello'') (str ''World'')
       = Inr (ascii_bytes ''2025-01-01T00:00:00Z\<newline>Hello\<newline>World'')
   \<and> sign_feed_item sk d t s = bind (spec_feed_bytes d t s) (\<lambda>c. Inr (hex (sk c)))
   \<and> verify_feed_signature pk d t s sg =
       bind (spec_feed_bytes d t s) (\<lambda>c. Inr (try_verify pk sg c))"
proof -
  have a: "canonical_feed_string d t s = spec_feed_bytes d t s"
    by (simp add: canonical_feed_string_def spec_feed_bytes_def)
  have nl: "encode_utf8 (str ''\<newline>'') = Inr [0x0A]"
    by (simp add: str_def utf8_char_def)
  have b: "canonical_feed_string d t s =
       bind (encode_utf8 d) (\<lambda>db. bind (encode_utf8 t) (\<lambda>tb. bind (encode_utf8 s)
         (\<lambda>sb. Inr (db @ [0x0A] @ tb @ [0x0A] @ sb))))"
    unfolding canonical_feed_string_def
    by (cases "encode_utf8 d"; cases "encode_utf8 t"; cases "encode_utf8 s")
       (simp_all add: encode_utf8_append nl)
  have c: "canonical_feed_string (str ''2025-01-01T00:00:00Z'') (str ''Hello'') (str ''World'')
       = Inr (ascii_bytes ''2025-01-01T00:00:00Z\<newline>Hello\<newline>World'')"
    by (simp add: canonical_feed_string_def str_def ascii_bytes_def utf8_char_def)
  have d: "sign_feed_item sk d t s = bind (spec_feed_bytes d t s) (\<lambda>c. Inr (hex (sk c)))"
    by (simp add: sign_feed_item_def a)
  have e: "verify_feed_signature pk d t s sg =
       bind (spec_feed_bytes d t s) (\<lambda>c. Inr (try_verify pk sg c))"
    by (simp add: verify_feed_signature_def a)
  from a b c d e show ?thesis by blast
qed

text \<open>
  Claim C4. For every key identifier \<open>k\<close> the canonical endorsement bytes are the
  UTF-8 encoding of \<open>endorse:\<close> followed by \<open>k\<close>: the eight ASCII bytes of the
  literal, then the encoding of \<open>k\<close>, and nothing after it. Signing and verifying
  both work on exactly these bytes.
\<close>

theorem canonical_endorsement_string_utf8:
  "canonical_endorsement_string k = spec_endorsement_bytes k
   \<and> canonical_endorsement_string k =
       bind (encode_utf8 k) (\<lambda>kb. Inr (ascii_bytes ''endorse:'' @ kb))
   \<and> sign_endorsement sk k = bind (spec_endorsement_bytes k) (\<lambda>c. Inr (hex (sk c)))
   \<and> verify_endorsement_signature pk k sg =
       bind (spec_endorsement_bytes k) (\<lambda>c. Inr (try_verify pk sg c))"
proof -
  have a: "canonical_endorsement_string k = spec_endorsement_bytes k"
    by (simp add: canonical_endorsement_string_def spec_endorsement_bytes_def)
  have lit: "encode_utf8 (str ''endorse:'') = Inr (ascii_bytes ''endorse:'')"
    by (simp add: str_def ascii_bytes_def utf8_char_def)
  have b: "canonical_endorsement_string k =
       bind (encode_utf8 k) (\<lambda>kb. Inr (ascii_bytes ''endorse:'' @ kb))"
    unfolding canonical_endorsement_string_def
    by (cases "encode_utf8 k") (simp_all add: encode_utf8_append lit)
  have c: "sign_endorsement sk k = bind (spec_endorsement_bytes k) (\<lambda>c. Inr (hex (sk c)))"
    by (simp add: sign_endorsement_def a)
  have d: "verify_endorsement_signature pk k sg =
       bind (spec_endorsement_bytes k) (\<lambda>c. Inr (try_verify pk sg c))"
    by (simp add: verify_endorsement_signature_def a)
  from a b c d show ?thesis by blast
qed

text \<open>
  Claim C2. Let \<open>K\<close> be a keypair: its public key accepts, for every message, the
  signature its private key makes of that message. Then for every key identifier and
  every feed item that have canonical bytes, verifying with \<open>K\<close>'s public key what
  \<open>K\<close>'s private key signed returns \<open>True\<close>, for the endorsement shape and for the
  feed-item shape.
\<close>

theorem sign_then_verify_true:
  assumes K: "\<And>m. pub K (priv K m) m = Inr ()"
    and ck: "canonical_endorsement_string k = Inr ck"
    and cf: "canonical_feed_string d t s = Inr cf"
  shows "bind (sign_endorsement (priv K) k) (verify_endorsement_signature (pub K) k) = Inr True
       \<and> bind (sign_feed_item (priv K) d t s) (verify_feed_signature (pub K) d t s) = Inr True"
  using K by (simp add: sign_endorsement_def verify_endorsement_signature_def ck
      sign_feed_item_def verify_feed_signature_def cf try_verify_def fromhex_hex)

text \<open>
  The theorem at a keypair whose signature of a message is the message reversed.
\<close>

theorem sign_then_verify_true_witness:
  "bind (sign_endorsement (\<lambda>m. rev m) (str ''AAAA''))
        (verify_endorsement_signature
           (\<lambda>sig m. if sig = rev m then Inr () else Inl InvalidSignature) (str ''AAAA''))
     = Inr True
   \<and> bind (sign_feed_item (\<lambda>m. rev m) (str ''2025-01-01T00:00:00Z'') (str ''Hello'') (str ''World''))
        (verify_feed_signature
           (\<lambda>sig m. if sig = rev m then Inr () else Inl InvalidSignature)
           (str ''2025-01-01T00:00:00Z'') (str ''Hello'') (str ''World''))
     = Inr True"
proof -
  let ?K = "\<lparr>priv = \<lambda>m. rev m,
             pub = \<lambda>sig m. if sig = rev m then Inr () else Inl InvalidSignature\<rparr>"
  have K: "\<And>m. pub ?K (priv ?K m) m = Inr ()" by simp
  have ck: "canonical_endorsement_string (str ''AAAA'') = Inr (ascii_bytes ''endorse:AAAA'')"
    by (simp add: canonical_endorsement_string_def str_def ascii_bytes_def utf8_char_def)
  have cf: "canonical_feed_string (str ''2025-01-01T00:00:00Z'') (str ''Hello'') (str ''World'')
       = Inr (ascii_bytes ''2025-01-01T00:00:00Z\<newline>Hello\<newline>World'')"
    by (simp add: canonical_feed_string_def str_def ascii_bytes_def utf8_char_def)
  show ?thesis using sign_then_verify_true [of ?K, OF K ck cf] by simp
qed


text \<open>
  Claim C3, as stated, fails: a signature text of odd length (\<open>abc\<close>) or with a
  character that is no hex digit (\<open>zz\<close>) makes verification return \<open>False\<close>; it
  raises nothing, even under a public key that accepts every signature.
\<close>

theorem verify_malformed_hex_counterexample:
  "verify_endorsement_signature (\<lambda>sig m. Inr ()) (str ''AAAA'') (str ''abc'') = Inr False
   \<and> verify_feed_signature (\<lambda>sig m. Inr ())
         (str ''2025-01-01T00:00:00Z'') (str ''Hello'') (str ''World'') (str ''zz'') = Inr False"
  by (simp add: verify_endorsement_signature_def canonical_endorsement_string_def
      verify_feed_signature_def canonical_feed_string_def try_verify_def
      str_def utf8_char_def hexval_def c_isspace_def)

text \<open>
  Claim C3, amended. For every public key, every message that has canonical bytes and
  every signature text, verification raises nothing: it returns \<open>True\<close> exactly when
  the text decodes from hex and the public key accepts the decoded signature for the
  canonical bytes, and \<open>False\<close> otherwise. A structurally malformed signature text
  (a non-hex character, an odd number of digits) gives \<open>False\<close> like a signature
  that fails the check; no distinct error tells the two apart.
\<close>

theorem verify_false_on_every_failure:
  assumes ck: "canonical_endorsement_string k = Inr ck"
    and cf: "canonical_feed_string d t s = Inr cf"
  shows "verify_endorsement_signature pk k sg
           = Inr (\<exists>sig. fromhex sg = Inr sig \<and> pk sig ck = Inr ())
       \<and> verify_feed_signature pk d t s sg
           = Inr (\<exists>sig. fromhex sg = Inr sig \<and> pk sig cf = Inr ())
       \<and> (malformed_hex sg \<longrightarrow>
            verify_endorsement_signature pk k sg = Inr False
            \<and> verify_feed_signature pk d t s sg = Inr False)"
proof -
  have e: "verify_endorsement_signature pk k sg
           = Inr (\<exists>sig. fromhex sg = Inr sig \<and> pk sig ck = Inr ())"
    by (simp add: verify_endorsement_signature_def ck try_verify_iff)
  have f: "verify_feed_signature pk d t s sg
           = Inr (\<exists>sig. fromhex sg = Inr sig \<and> pk sig cf = Inr ())"
    by (simp add: verify_feed_signature_def cf try_verify_iff)
  have m: "verify_endorsement_signature pk k sg = Inr False
            \<and> verify_feed_signature pk d t s sg = Inr False" if "malformed_hex sg"
    using fromhex_malformed [OF that] by (simp add: e f)
  from e f m show ?thesis by blast
qed

text \<open>The theorem at the signature text \<open>0g\<close>.\<close>

theorem verify_false_on_every_failure_witness:
  "malformed_hex (str ''0g'')
   \<and> verify_endorsement_signature (\<lambda>sig m. Inr ()) (str ''BBBB'') (str ''0g'') = Inr False
   \<and> verify_feed_signature (\<lambda>sig m. Inr ()) (str ''d'') (str ''t'') (str ''s'') (str ''0g'')
       = Inr False"
proof -
  have ck: "canonical_endorsement_string (str ''BBBB'') = Inr (ascii_bytes ''endorse:BBBB'')"
    by (simp add: canonical_endorsement_string_def str_def ascii_bytes_def utf8_char_def)
  have cf: "canonical_feed_string (str ''d'') (str ''t'') (str ''s'')
       = Inr (ascii_bytes ''d\<newline>t\<newline>s'')"
    by (simp add: canonical_feed_string_def str_def ascii_bytes_def utf8_char_def)
  have m: "malformed_hex (str ''0g'')"
    by (simp add: malformed_hex_def str_def hexval_def c_isspace_def)
  show ?thesis
    using verify_false_on_every_failure [OF ck cf, of "\<lambda>sig m. Inr ()" "str ''0g''"] m
    by blast
qed



section \<open>Properties of the profile parser\<close>

lemma startswith_Cons: "startswith l (c # p) \<Longrightarrow> \<exists>r. l = c # r"
  by (cases l) (auto simp: startswith_def)

lemma key_line_shape: "startswith l (str ''KEY;'') \<Longrightarrow> \<exists>r. l = 75 # r"
  by (auto simp: str_def dest: startswith_Cons)

lemma revkey_line_shape: "startswith l (str ''REVKEY;'') \<Longrightarrow> \<exists>r. l = 82 # r"
  by (auto simp: str_def dest: startswith_Cons)

lemma endorse_line_shape: "startswith l (str ''X-ENDORSE;'') \<Longrightarrow> \<exists>r. l = 88 # r"
  by (auto simp: str_def dest: startswith_Cons)

lemma key_line_not_other:
  assumes "startswith l (str ''KEY;'')"
  shows "\<not> startswith l (str ''FN:'')" "\<not> startswith l (str ''PHOTO:'')"
  using key_line_shape [OF assms] by (auto simp: startswith_def str_def)

lemma revkey_line_not_other:
  assumes "startswith l (str ''REVKEY;'')"
  shows "\<not> startswith l (str ''FN:'')" "\<not> startswith l (str ''PHOTO:'')"
    "\<not> startswith l (str ''KEY;'')"
  using revkey_line_shape [OF assms] by (auto simp: startswith_def str_def)

lemma endorse_line_not_other:
  assumes "startswith l (str ''X-ENDORSE;'')"
  shows "\<not> startswith l (str ''FN:'')" "\<not> startswith l (str ''PHOTO:'')"
    "\<not> startswith l (str ''KEY;'')" "\<not> startswith l (str ''REVKEY;'')"
  using endorse_line_shape [OF assms] by (auto simp: startswith_def str_def)

lemma split_1_colon:
  "split_1 c l = (if c \<in> set l then [takeWhile (\<lambda>x. x \<noteq> c) l, tl (dropWhile (\<lambda>x. x \<noteq> c) l)] else [l])"
  by (simp add: split_1_def)

lemma py_int_error: "py_int x = Inl e \<Longrightarrow> e = ValueError"
  by (auto simp: py_int_def Let_def split: if_splits)

text \<open>The pass over a line of each of the three properties with parameters.\<close>

lemma parse_line_key:
  assumes "startswith l (str ''KEY;'')"
  shows "parse_line p l =
     (case split_1 58 l of
        [header, value] \<Rightarrow>
          bind (case parse_params header (str ''PREF'') of
                  None \<Rightarrow> Inr None
                | Some x \<Rightarrow> bind (py_int x) (\<lambda>n. Inr (Some n)))
            (\<lambda>pref_v. Inr (p\<lparr>public_keys := public_keys p @
               [\<lparr>alg = lower (case parse_params header (str ''ALG'') of None \<Rightarrow> [] | Some a \<Rightarrow> a),
                 key_b64 = value, pref = pref_v\<rparr>]\<rparr>))
      | _ \<Rightarrow> Inl ValueError)"
  using assms key_line_not_other [OF assms]
  by (simp add: parse_line_def Let_def split: list.splits)

lemma parse_line_revkey:
  assumes "startswith l (str ''REVKEY;'')"
  shows "parse_line p l =
     (case split_1 58 l of
        [header, value] \<Rightarrow>
          Inr (p\<lparr>revocations := revocations p @
                 [\<lparr>rk_key_b64 = value, rk_reason = parse_params header (str ''REASON''),
                   rk_date = parse_params header (str ''DATE'')\<rparr>]\<rparr>)
      | _ \<Rightarrow> Inl ValueError)"
  using assms revkey_line_not_other [OF assms]
  by (simp add: parse_line_def Let_def split: list.splits)

lemma parse_line_endorse:
  assumes "startswith l (str ''X-ENDORSE;'')"
  shows "parse_line p l =
     (case split_1 58 l of
        [header, value] \<Rightarrow>
          Inr (p\<lparr>endorsements := endorsements p @
                 [\<lparr>endorsee_key_b64 = value,
                   signature_hex = (case parse_params header (str ''SIG'') of None \<Rightarrow> [] | Some x \<Rightarrow> x),
                   date = parse_params header (str ''DATE''),
                   confidence = parse_params header (str ''CONFIDENCE'')\<rparr>]\<rparr>)
      | _ \<Rightarrow> Inl ValueError)"
  using assms endorse_line_not_other [OF assms]
  by (simp add: parse_line_def Let_def split: list.splits)

lemma parse_line_unrecognized: "\<not> recognized l \<Longrightarrow> parse_line p l = Inr p"
  by (simp add: recognized_def parse_line_def)

lemma parse_line_error: "parse_line p l = Inl e \<Longrightarrow> e = ValueError"
  by (auto simp: parse_line_def Let_def bind_def split_1_def
      split: if_splits sum.splits option.splits dest: py_int_error)

lemma parse_line_ok_iff: "(\<exists>p'. parse_line p l = Inr p') \<longleftrightarrow> well_formed_line l"
proof (cases "startswith l (str ''KEY;'')")
  case True
  show ?thesis
    by (auto simp: parse_line_key [OF True] well_formed_line_def True split_1_def accepted_int_def
        bind_def split: option.splits sum.splits)
next
  case nk: False
  show ?thesis
  proof (cases "startswith l (str ''REVKEY;'')")
    case True
    show ?thesis
      by (auto simp: parse_line_revkey [OF True] well_formed_line_def True nk split_1_def)
  next
    case nr: False
    show ?thesis
    proof (cases "startswith l (str ''X-ENDORSE;'')")
      case True
      show ?thesis
        by (auto simp: parse_line_endorse [OF True] well_formed_line_def True nk nr split_1_def)
    next
      case False
      with nk nr show ?thesis
        by (auto simp: parse_line_def well_formed_line_def)
    qed
  qed
qed

lemma parse_line_fail: "\<not> well_formed_line l \<Longrightarrow> parse_line p l = Inl ValueError"
  using parse_line_ok_iff [of p l] parse_line_error [of p l]
  by (cases "parse_line p l") auto

lemma parse_lines_ok: "list_all well_formed_line ls \<Longrightarrow> \<exists>p'. parse_lines p ls = Inr p'"
proof (induction ls arbitrary: p)
  case Nil show ?case by simp
next
  case (Cons l ls)
  then obtain p1 where "parse_line p l = Inr p1"
    using parse_line_ok_iff [of p l] by auto
  with Cons show ?case by simp
qed

lemma parse_lines_fail: "\<not> list_all well_formed_line ls \<Longrightarrow> parse_lines p ls = Inl ValueError"
proof (induction ls arbitrary: p)
  case Nil then show ?case by simp
next
  case (Cons l ls)
  show ?case
  proof (cases "well_formed_line l")
    case True
    then obtain p1 where "parse_line p l = Inr p1"
      using parse_line_ok_iff [of p l] by auto
    with Cons True show ?thesis by simp
  next
    case False
    then show ?thesis by (simp add: parse_line_fail)
  qed
qed

lemma parse_lines_skip: "parse_lines p ls = parse_lines p (filter recognized ls)"
proof (induction ls arbitrary: p)
  case Nil show ?case by simp
next
  case (Cons l ls)
  show ?case
  proof (cases "recognized l")
    case True
    with Cons show ?thesis by simp
  next
    case False
    with Cons show ?thesis by (simp add: parse_line_unrecognized)
  qed
qed

lemma add_param_same: "same_param p q \<Longrightarrow> add_param m p = add_param m q"
  by (auto simp: same_param_def add_param_def split_1_def split: if_splits)

lemma foldl_add_param_same:
  "list_all2 same_param ps qs \<Longrightarrow> foldl add_param m ps = foldl add_param m qs"
proof (induction ps qs arbitrary: m rule: list_all2_induct)
  case Nil show ?case by simp
next
  case (Cons p ps q qs)
  then show ?case by (simp add: add_param_same)
qed

lemma parse_params_same: "same_params h1 h2 \<Longrightarrow> parse_params h1 = parse_params h2"
  by (simp add: same_params_def parse_params_def foldl_add_param_same)

lemma foldl_add_param_verbatim:
  "foldl add_param m ps name = Some v \<Longrightarrow>
     m name = Some v
     \<or> (\<exists>part\<in>set ps. 61 \<in> set part \<and> upper (takeWhile (\<lambda>x. x \<noteq> 61) part) = name
            \<and> v = tl (dropWhile (\<lambda>x. x \<noteq> 61) part))"
proof (induction ps arbitrary: m)
  case Nil then show ?case by simp
next
  case (Cons p ps)
  from Cons.prems have "foldl add_param (add_param m p) ps name = Some v" by simp
  from Cons.IH [OF this] show ?case
    by (auto simp: add_param_def split_1_def split: if_splits)
qed

lemma parse_params_verbatim:
  "parse_params h name = Some v \<Longrightarrow>
     \<exists>part\<in>set (tl (split_on 59 h)). 61 \<in> set part
        \<and> upper (takeWhile (\<lambda>x. x \<noteq> 61) part) = name
        \<and> v = tl (dropWhile (\<lambda>x. x \<noteq> 61) part)"
  unfolding parse_params_def using foldl_add_param_verbatim [of Map.empty] by fastforce

lemma startswith_append: "startswith h pre \<Longrightarrow> startswith (h @ r) pre"
  by (metis append_eq_conv_conj startswith_def take_append append.assoc append_take_drop_id)

lemma split_1_append: "c \<notin> set h \<Longrightarrow> split_1 c (h @ c # v) = [h, v]"
  by (induction h) (auto simp: split_1_def)

lemma parse_line_same_params:
  assumes pre: "property_prefix pre" and s1: "startswith h1 pre" and s2: "startswith h2 pre"
    and c1: "58 \<notin> set h1" and c2: "58 \<notin> set h2" and same: "same_params h1 h2"
  shows "parse_line p (h1 @ 58 # v) = parse_line p (h2 @ 58 # v)"
proof -
  note pp = parse_params_same [OF same]
  note sp = split_1_append [OF c1] split_1_append [OF c2]
  from pre consider "pre = str ''KEY;''" | "pre = str ''REVKEY;''" | "pre = str ''X-ENDORSE;''"
    by (auto simp: property_prefix_def)
  then show ?thesis
  proof cases
    case 1
    with s1 s2 have "startswith (h1 @ 58 # v) (str ''KEY;'')" "startswith (h2 @ 58 # v) (str ''KEY;'')"
      by (simp_all add: startswith_append)
    then show ?thesis by (simp add: parse_line_key sp pp)
  next
    case 2
    with s1 s2 have "startswith (h1 @ 58 # v) (str ''REVKEY;'')" "startswith (h2 @ 58 # v) (str ''REVKEY;'')"
      by (simp_all add: startswith_append)
    then show ?thesis by (simp add: parse_line_revkey sp pp)
  next
    case 3
    with s1 s2 have "startswith (h1 @ 58 # v) (str ''X-ENDORSE;'')" "startswith (h2 @ 58 # v) (str ''X-ENDORSE;'')"
      by (simp_all add: startswith_append)
    then show ?thesis by (simp add: parse_line_endorse sp pp)
  qed
qed

lemma upper_idem: "upper (upper k) = upper k"
  by (induction k) (auto simp: upper_def)

lemma upper_no_eq: "61 \<notin> set k \<Longrightarrow> 61 \<notin> set (upper k)"
  by (induction k) (auto simp: upper_def)

lemma takeWhile_until: "c \<notin> set k \<Longrightarrow> takeWhile (\<lambda>x. x \<noteq> c) (k @ c # v) = k"
  by (induction k) auto

lemma dropWhile_until: "c \<notin> set k \<Longrightarrow> dropWhile (\<lambda>x. x \<noteq> c) (k @ c # v) = c # v"
  by (induction k) auto

lemma same_param_upper: "61 \<notin> set k \<Longrightarrow> same_param (k @ 61 # v) (upper k @ 61 # v)"
  using upper_no_eq [of k]
  by (simp add: same_param_def takeWhile_until dropWhile_until upper_idem)

text \<open>
  Claim C10. Parameter names are matched without regard to case. When two ASCII
  property headers have the same parameters up to the case of the names,
  \<open>parse_params\<close> gives the same dict for both; every value in the dict is the text
  after the \<open>=\<close> of a parameter, unchanged, stored under the upper-cased name; and a
  \<open>KEY\<close>, \<open>REVKEY\<close> or \<open>X-ENDORSE\<close> line parses to the same result under either
  header. A parameter and its form with the name in upper case always agree in this
  way.
\<close>

theorem param_names_case_insensitive:
  assumes "is_ascii h1" and "is_ascii h2" and same: "same_params h1 h2"
  shows "parse_params h1 = parse_params h2
       \<and> (\<forall>name v. parse_params h1 name = Some v \<longrightarrow>
            (\<exists>part\<in>set (tl (split_on 59 h1)). 61 \<in> set part
               \<and> upper (takeWhile (\<lambda>x. x \<noteq> 61) part) = name
               \<and> v = tl (dropWhile (\<lambda>x. x \<noteq> 61) part)))
       \<and> (\<forall>pre p v. property_prefix pre \<and> startswith h1 pre \<and> startswith h2 pre
              \<and> 58 \<notin> set h1 \<and> 58 \<notin> set h2 \<longrightarrow>
            parse_line p (h1 @ 58 # v) = parse_line p (h2 @ 58 # v))
       \<and> (\<forall>k v. 61 \<notin> set k \<longrightarrow> same_param (k @ 61 # v) (upper k @ 61 # v))"
  using parse_params_same [OF same] parse_params_verbatim [of h1]
    parse_line_same_params [OF _ _ _ _ _ same] same_param_upper
  by blast

text \<open>The definitions that evaluate the parser on a concrete text.\<close>

lemmas text_defs = str_def is_ascii_def startswith_def split_1_def upper_def lower_def
  strip_def py_isspace_def is_linebreak_def splitlines_def vcard_lines_def

lemmas parser_defs = parse_vcard_def new_profile_def parse_line_def parse_params_def
  add_param_def py_int_def c_isspace_def is_digit_def digits_value_def int_max_str_digits_def

text \<open>
  The theorem at the headers \<open>KEY;alg=Ed25519;Pref=1\<close> and \<open>KEY;ALG=Ed25519;PREF=1\<close>.
\<close>

theorem param_names_case_insensitive_witness:
  "parse_params (str ''KEY;alg=Ed25519;Pref=1'') = parse_params (str ''KEY;ALG=Ed25519;PREF=1'')
   \<and> parse_params (str ''KEY;alg=Ed25519;Pref=1'') (str ''ALG'') = Some (str ''Ed25519'')
   \<and> parse_line (new_profile []) (str ''KEY;alg=Ed25519;Pref=1'' @ 58 # str ''AAAA'')
       = parse_line (new_profile []) (str ''KEY;ALG=Ed25519;PREF=1'' @ 58 # str ''AAAA'')"
proof -
  let ?h1 = "str ''KEY;alg=Ed25519;Pref=1''" and ?h2 = "str ''KEY;ALG=Ed25519;PREF=1''"
  have a1: "is_ascii ?h1" and a2: "is_ascii ?h2" by (simp_all add: text_defs)
  have same: "same_params ?h1 ?h2"
    by (simp add: same_params_def same_param_def text_defs)
  have pre: "property_prefix (str ''KEY;'')" by (simp add: property_prefix_def)
  have st: "startswith ?h1 (str ''KEY;'')" "startswith ?h2 (str ''KEY;'')"
    "58 \<notin> set ?h1" "58 \<notin> set ?h2"
    by (simp_all add: text_defs)
  have v: "parse_params ?h1 (str ''ALG'') = Some (str ''Ed25519'')"
    by (simp add: parse_params_def add_param_def text_defs)
  show ?thesis
    using param_names_case_insensitive [OF a1 a2 same] pre st v by blast
qed

lemma split_1_two:
  assumes "split_1 c l = [h, v]"
  shows "c \<in> set l" "h = takeWhile (\<lambda>x. x \<noteq> c) l"
  using assms by (auto simp: split_1_def split: if_splits)

lemma parse_line_keeps:
  assumes "parse_line p l = Inr p'"
  shows "set (public_keys p) \<subseteq> set (public_keys p') \<and> set (revocations p) \<subseteq> set (revocations p')"
  using assms
  by (auto simp: parse_line_def Let_def bind_def split: if_splits list.splits sum.splits option.splits)

lemma parse_lines_keeps:
  "parse_lines p ls = Inr p' \<Longrightarrow>
     set (public_keys p) \<subseteq> set (public_keys p') \<and> set (revocations p) \<subseteq> set (revocations p')"
proof (induction ls arbitrary: p)
  case Nil then show ?case by simp
next
  case (Cons l ls)
  then obtain p1 where p1: "parse_line p l = Inr p1" "parse_lines p1 ls = Inr p'"
    by (cases "parse_line p l") auto
  from parse_line_keeps [OF p1(1)] Cons.IH [OF p1(2)] show ?case by blast
qed

lemma parse_line_revkey_in:
  assumes "parse_line p l = Inr p'" "startswith l (str ''REVKEY;'')" "split_1 58 l = [h, k]"
  shows "k \<in> set (map rk_key_b64 (revocations p'))"
  using assms by (auto simp: parse_line_revkey)

lemma parse_line_key_in:
  assumes "parse_line p l = Inr p'" "startswith l (str ''KEY;'')" "split_1 58 l = [h, k]"
  shows "k \<in> set (map key_b64 (public_keys p'))"
  using assms by (auto simp: parse_line_key bind_def split: sum.splits option.splits)

lemma parse_lines_revkey_in:
  "parse_lines p ls = Inr p' \<Longrightarrow> l \<in> set ls \<Longrightarrow> startswith l (str ''REVKEY;'') \<Longrightarrow>
     split_1 58 l = [h, k] \<Longrightarrow> k \<in> set (map rk_key_b64 (revocations p'))"
proof (induction ls arbitrary: p)
  case Nil then show ?case by simp
next
  case (Cons a ls)
  then obtain p1 where p1: "parse_line p a = Inr p1" "parse_lines p1 ls = Inr p'"
    by (cases "parse_line p a") auto
  show ?case
  proof (cases "l = a")
    case True
    with p1 Cons.prems have "k \<in> set (map rk_key_b64 (revocations p1))"
      using parse_line_revkey_in by blast
    with parse_lines_keeps [OF p1(2)] show ?thesis by auto
  next
    case False
    with Cons.prems have "l \<in> set ls" by simp
    from Cons.IH [OF p1(2) this Cons.prems(3,4)] show ?thesis .
  qed
qed

lemma parse_lines_key_in:
  "parse_lines p ls = Inr p' \<Longrightarrow> l \<in> set ls \<Longrightarrow> startswith l (str ''KEY;'') \<Longrightarrow>
     split_1 58 l = [h, k] \<Longrightarrow> k \<in> set (map key_b64 (public_keys p'))"
proof (induction ls arbitrary: p)
  case Nil then show ?case by simp
next
  case (Cons a ls)
  then obtain p1 where p1: "parse_line p a = Inr p1" "parse_lines p1 ls = Inr p'"
    by (cases "parse_line p a") auto
  show ?case
  proof (cases "l = a")
    case True
    with p1 Cons.prems have "k \<in> set (map key_b64 (public_keys p1))"
      using parse_line_key_in by blast
    with parse_lines_keeps [OF p1(2)] show ?thesis by auto
  next
    case False
    with Cons.prems have "l \<in> set ls" by simp
    from Cons.IH [OF p1(2) this Cons.prems(3,4)] show ?thesis .
  qed
qed

lemma line_for_split:
  "line_for property k l \<Longrightarrow> split_1 58 l = [takeWhile (\<lambda>x. x \<noteq> 58) l, k]"
  by (simp add: line_for_def split_1_def)

text \<open>
  Claim C5. Let the parse of a text yield a Profile. A key identifier that is both in
  the \<open>public_keys\<close> list and in the \<open>revocations\<close> list is reported as revoked by
  the trust query. This holds whatever the order of the lines: when the text has a
  \<open>KEY\<close> line and a \<open>REVKEY\<close> line for the identifier, anywhere, the identifier
  is in both lists and the query reports it as revoked. The preference rank plays no
  part.
\<close>

theorem revocation_dominates:
  assumes parsed: "parse_vcard text = Inr p"
  shows "(k \<in> set (map key_b64 (public_keys p)) \<and> k \<in> set (map rk_key_b64 (revocations p))
            \<longrightarrow> key_trust p k = Revoked)
       \<and> (list_ex (line_for ''KEY;'' k) (vcard_lines text)
          \<and> list_ex (line_for ''REVKEY;'' k) (vcard_lines text)
            \<longrightarrow> k \<in> set (map key_b64 (public_keys p))
                \<and> k \<in> set (map rk_key_b64 (revocations p))
                \<and> key_trust p k = Revoked)"
proof -
  have a: "key_trust p k = Revoked" if "k \<in> set (map rk_key_b64 (revocations p))"
    using that by (simp add: key_trust_def)
  have b: "k \<in> set (map key_b64 (public_keys p)) \<and> k \<in> set (map rk_key_b64 (revocations p))"
    if kl: "list_ex (line_for ''KEY;'' k) (vcard_lines text)"
      and rl: "list_ex (line_for ''REVKEY;'' k) (vcard_lines text)"
  proof -
    from kl obtain l1 where l1: "l1 \<in> set (vcard_lines text)" "line_for ''KEY;'' k l1"
      by (auto simp: list_ex_iff)
    from rl obtain l2 where l2: "l2 \<in> set (vcard_lines text)" "line_for ''REVKEY;'' k l2"
      by (auto simp: list_ex_iff)
    from parsed have pl: "parse_lines (new_profile text) (vcard_lines text) = Inr p"
      by (simp add: parse_vcard_def)
    have "k \<in> set (map key_b64 (public_keys p))"
      using parse_lines_key_in [OF pl l1(1) _ line_for_split [OF l1(2)]] l1(2)
      by (simp add: line_for_def)
    moreover have "k \<in> set (map rk_key_b64 (revocations p))"
      using parse_lines_revkey_in [OF pl l2(1) _ line_for_split [OF l2(2)]] l2(2)
      by (simp add: line_for_def)
    ultimately show ?thesis by blast
  qed
  from a b show ?thesis by blast
qed

text \<open>
  The theorem at the scenario of the specification, and at the same two lines in the
  other order.
\<close>

theorem revocation_dominates_witness:
  "parse_vcard (str ''KEY;ALG=ed25519;PREF=1;ENCODING=b:AAAA\<newline>REVKEY;REASON=compromised:AAAA\<newline>'')
     = Inr \<lparr>fn = None, photo = None, capabilities = [],
            public_keys = [\<lparr>alg = str ''ed25519'', key_b64 = str ''AAAA'', pref = Some 1\<rparr>],
            endorsements = [],
            revocations = [\<lparr>rk_key_b64 = str ''AAAA'', rk_reason = Some (str ''compromised''),
                            rk_date = None\<rparr>],
            raw = str ''KEY;ALG=ed25519;PREF=1;ENCODING=b:AAAA\<newline>REVKEY;REASON=compromised:AAAA\<newline>''\<rparr>
   \<and> key_trust \<lparr>fn = None, photo = None, capabilities = [],
            public_keys = [\<lparr>alg = str ''ed25519'', key_b64 = str ''AAAA'', pref = Some 1\<rparr>],
            endorsements = [],
            revocations = [\<lparr>rk_key_b64 = str ''AAAA'', rk_reason = Some (str ''compromised''),
                            rk_date = None\<rparr>],
            raw = str ''KEY;ALG=ed25519;PREF=1;ENCODING=b:AAAA\<newline>REVKEY;REASON=compromised:AAAA\<newline>''\<rparr>
         (str ''AAAA'') = Revoked
   \<and> parse_vcard (str ''REVKEY;REASON=compromised:AAAA\<newline>KEY;ALG=ed25519;PREF=1;ENCODING=b:AAAA'')
     = Inr \<lparr>fn = None, photo = None, capabilities = [],
            public_keys = [\<lparr>alg = str ''ed25519'', key_b64 = str ''AAAA'', pref = Some 1\<rparr>],
            endorsements = [],
            revocations = [\<lparr>rk_key_b64 = str ''AAAA'', rk_reason = Some (str ''compromised''),
                            rk_date = None\<rparr>],
            raw = str ''REVKEY;REASON=compromised:AAAA\<newline>KEY;ALG=ed25519;PREF=1;ENCODING=b:AAAA''\<rparr>
   \<and> key_trust \<lparr>fn = None, photo = None, capabilities = [],
            public_keys = [\<lparr>alg = str ''ed25519'', key_b64 = str ''AAAA'', pref = Some 1\<rparr>],
            endorsements = [],
            revocations = [\<lparr>rk_key_b64 = str ''AAAA'', rk_reason = Some (str ''compromised''),
                            rk_date = None\<rparr>],
            raw = str ''REVKEY;REASON=compromised:AAAA\<newline>KEY;ALG=ed25519;PREF=1;ENCODING=b:AAAA''\<rparr>
         (str ''AAAA'') = Revoked"
proof -
  let ?t1 = "str ''KEY;ALG=ed25519;PREF=1;ENCODING=b:AAAA\<newline>REVKEY;REASON=compromised:AAAA\<newline>''"
  let ?t2 = "str ''REVKEY;REASON=compromised:AAAA\<newline>KEY;ALG=ed25519;PREF=1;ENCODING=b:AAAA''"
  let ?ks = "[\<lparr>alg = str ''ed25519'', key_b64 = str ''AAAA'', pref = Some 1\<rparr>]"
  let ?rs = "[\<lparr>rk_key_b64 = str ''AAAA'', rk_reason = Some (str ''compromised''), rk_date = None\<rparr>]"
  let ?p1 = "\<lparr>fn = None, photo = None, capabilities = [], public_keys = ?ks,
              endorsements = [], revocations = ?rs, raw = ?t1\<rparr>"
  let ?p2 = "\<lparr>fn = None, photo = None, capabilities = [], public_keys = ?ks,
              endorsements = [], revocations = ?rs, raw = ?t2\<rparr>"
  have p1: "parse_vcard ?t1 = Inr ?p1"
    by (simp add: parser_defs text_defs)
  have p2: "parse_vcard ?t2 = Inr ?p2"
    by (simp add: parser_defs text_defs)
  have m: "str ''AAAA'' \<in> set (map key_b64 ?ks)" "str ''AAAA'' \<in> set (map rk_key_b64 ?rs)"
    by simp_all
  show ?thesis
    using revocation_dominates [OF p1, of "str ''AAAA''"]
      revocation_dominates [OF p2, of "str ''AAAA''"] p1 p2 m
    by simp
qed

text \<open>
  Claim C6, as stated, fails: on a \<open>KEY\<close> line with \<open>PREF=abc\<close> the parse raises
  \<open>ValueError\<close>; no Profile is returned and no PublicKey entry is appended.
\<close>

theorem non_numeric_pref_counterexample:
  "parse_vcard (str ''KEY;ALG=ed25519;PREF=abc:AAAA'') = Inl ValueError"
  by (simp add: parser_defs text_defs)

text \<open>
  Claim C6, amended. Take an ASCII text with a \<open>KEY\<close> line that has a \<open>PREF\<close>
  parameter. When \<open>int()\<close> rejects the value, \<open>parse_vcard\<close> raises \<open>ValueError\<close>
  for the whole text. When \<open>int()\<close> reads it as \<open>n\<close>, the pass over the line appends
  a PublicKey entry with the line's value as identifier and \<open>pref = n\<close>.
\<close>

theorem non_numeric_pref_is_fatal:
  assumes ascii: "is_ascii text"
    and line: "line \<in> set (vcard_lines text)"
    and key: "startswith line (str ''KEY;'')"
    and split: "split_1 58 line = [header, value]"
    and pref_param: "parse_params header (str ''PREF'') = Some x"
  shows "(\<not> accepted_int x \<longrightarrow> parse_vcard text = Inl ValueError)
       \<and> (\<forall>n. py_int x = Inr n \<longrightarrow>
            parse_line profile line =
              Inr (profile\<lparr>public_keys := public_keys profile @
                [\<lparr>alg = lower (case parse_params header (str ''ALG'') of None \<Rightarrow> [] | Some a \<Rightarrow> a),
                  key_b64 = value, pref = Some n\<rparr>]\<rparr>))"
proof -
  note sp = split_1_two [OF split]
  have a: "parse_vcard text = Inl ValueError" if "\<not> accepted_int x"
  proof -
    from that key sp pref_param have "\<not> well_formed_line line"
      by (simp add: well_formed_line_def)
    with line have "\<not> list_all well_formed_line (vcard_lines text)"
      by (auto simp: list_all_iff)
    then show ?thesis by (simp add: parse_vcard_def parse_lines_fail)
  qed
  have b: "parse_line profile line =
              Inr (profile\<lparr>public_keys := public_keys profile @
                [\<lparr>alg = lower (case parse_params header (str ''ALG'') of None \<Rightarrow> [] | Some a \<Rightarrow> a),
                  key_b64 = value, pref = Some n\<rparr>]\<rparr>)" if "py_int x = Inr n" for n
    using that by (simp add: parse_line_key [OF key] split pref_param)
  from a b show ?thesis by blast
qed

text \<open>
  The theorem at \<open>PREF=1x\<close>, which aborts the parse, and at \<open>PREF=7\<close>.
\<close>

theorem non_numeric_pref_is_fatal_witness:
  "\<not> accepted_int (str ''1x'')
   \<and> parse_vcard (str ''FN:Ann\<newline>KEY;ALG=Ed25519;PREF=1x:BBBB'') = Inl ValueError
   \<and> py_int (str ''7'') = Inr 7
   \<and> parse_line (new_profile []) (str ''KEY;ALG=Ed25519;PREF=7:BBBB'')
       = Inr ((new_profile [])\<lparr>public_keys :=
           [\<lparr>alg = str ''ed25519'', key_b64 = str ''BBBB'', pref = Some 7\<rparr>]\<rparr>)"
proof -
  let ?t = "str ''FN:Ann\<newline>KEY;ALG=Ed25519;PREF=1x:BBBB''"
  let ?l = "str ''KEY;ALG=Ed25519;PREF=1x:BBBB''"
  let ?h = "str ''KEY;ALG=Ed25519;PREF=1x''"
  have a: "is_ascii ?t" by (simp add: text_defs)
  have l: "?l \<in> set (vcard_lines ?t)" by (simp add: text_defs)
  have k: "startswith ?l (str ''KEY;'')" by (simp add: text_defs)
  have s: "split_1 58 ?l = [?h, str ''BBBB'']" by (simp add: text_defs)
  have pp: "parse_params ?h (str ''PREF'') = Some (str ''1x'')"
    by (simp add: parse_params_def add_param_def text_defs)
  have n: "\<not> accepted_int (str ''1x'')"
    by (simp add: accepted_int_def parser_defs text_defs)
  let ?t' = "str ''KEY;ALG=Ed25519;PREF=7:BBBB''"
  let ?h' = "str ''KEY;ALG=Ed25519;PREF=7''"
  have a': "is_ascii ?t'" by (simp add: text_defs)
  have l': "?t' \<in> set (vcard_lines ?t')" by (simp add: text_defs)
  have k': "startswith ?t' (str ''KEY;'')" by (simp add: text_defs)
  have s': "split_1 58 ?t' = [?h', str ''BBBB'']" by (simp add: text_defs)
  have pp': "parse_params ?h' (str ''PREF'') = Some (str ''7'')"
    by (simp add: parse_params_def add_param_def text_defs)
  have al: "parse_params ?h' (str ''ALG'') = Some (str ''Ed25519'')"
    by (simp add: parse_params_def add_param_def text_defs)
  have i: "py_int (str ''7'') = Inr 7"
    by (simp add: parser_defs text_defs)
  have lo: "lower (str ''Ed25519'') = str ''ed25519''" by (simp add: text_defs)
  show ?thesis
    using non_numeric_pref_is_fatal [OF a l k s pp]
      non_numeric_pref_is_fatal [OF a' l' k' s' pp', of "new_profile []"] n i al lo
    by (simp add: new_profile_def)
qed

text \<open>
  Claim C7, as stated, fails: a \<open>KEY\<close> line without a colon is recognized and
  malformed, and the whole parse raises \<open>ValueError\<close>.
\<close>

theorem malformed_line_counterexample:
  "parse_vcard (str ''FN:Ann\<newline>KEY;ALG=ed25519'') = Inl ValueError"
  by (simp add: parser_defs text_defs)

text \<open>
  Claim C7, amended. For every ASCII text, \<open>parse_vcard\<close> returns a Profile when
  every line is well formed, and raises \<open>ValueError\<close> otherwise (a \<open>KEY\<close>,
  \<open>REVKEY\<close> or \<open>X-ENDORSE\<close> line without a colon, or a \<open>KEY\<close> line whose
  \<open>PREF\<close> is no integer text). Unrecognized lines are skipped: the result is that
  of the recognized lines alone, and the pass over an unrecognized line leaves the
  Profile, with all its collections, as it was.
\<close>

theorem parse_vcard_tolerance:
  assumes ascii: "is_ascii text"
  shows "(list_all well_formed_line (vcard_lines text) \<longrightarrow> (\<exists>p. parse_vcard text = Inr p))
       \<and> (\<not> list_all well_formed_line (vcard_lines text) \<longrightarrow> parse_vcard text = Inl ValueError)
       \<and> parse_vcard text = parse_lines (new_profile text) (filter recognized (vcard_lines text))
       \<and> (\<forall>line profile. \<not> recognized line \<longrightarrow> parse_line profile line = Inr profile)"
  using parse_lines_ok [of "vcard_lines text" "new_profile text"]
    parse_lines_fail [of "vcard_lines text" "new_profile text"]
    parse_lines_skip [of "new_profile text" "vcard_lines text"]
    parse_line_unrecognized
  by (simp add: parse_vcard_def)

text \<open>
  The theorem at the line \<open>X-UNKNOWN;FOO=1:bar\<close>: the parse returns the empty Profile.
\<close>

theorem parse_vcard_tolerance_witness:
  "parse_vcard (str ''X-UNKNOWN;FOO=1:bar'') = Inr (new_profile (str ''X-UNKNOWN;FOO=1:bar''))
   \<and> \<not> recognized (str ''X-UNKNOWN;FOO=1:bar'')
   \<and> parse_line (new_profile []) (str ''X-UNKNOWN;FOO=1:bar'') = Inr (new_profile [])"
proof -
  let ?t = "str ''X-UNKNOWN;FOO=1:bar''"
  have a: "is_ascii ?t" by (simp add: text_defs)
  have l: "vcard_lines ?t = [?t]" by (simp add: text_defs)
  have r: "\<not> recognized ?t" by (simp add: recognized_def text_defs)
  show ?thesis
    using parse_vcard_tolerance [OF a] l r by simp
qed


section \<open>Properties of the identity-record builder\<close>

lemma rendered_fields_Nil: "concat (map rendered_field (filter populated [])) = []"
  by simp

lemma rendered_fields_Cons:
  "concat (map rendered_field (filter populated ((pre, v, post) # fs)))
     = field_line pre v post @ concat (map rendered_field (filter populated fs))"
  by (cases v) (simp_all add: populated_def rendered_field_def field_line_def truthy_def format_opt_def)

lemma key_line_complete: "key_complete key \<Longrightarrow> key_line key = Inr (rendered_key key)"
  by (auto simp: key_complete_def key_line_def rendered_key_def subscript_def format_opt_def
      split: option.splits sum.splits)

lemma key_lines_complete:
  "list_all key_complete ks \<Longrightarrow> key_lines acc ks = Inr (acc @ concat (map rendered_key ks))"
  by (induction ks arbitrary: acc) (simp_all add: key_line_complete)

text \<open>
  Claim C9, amended. When every key has the entries \<open>alg\<close>, \<open>key_b64\<close> and
  \<open>encoding\<close> (and a \<open>pref\<close> with a decimal text), \<open>build_vcard_content\<close> returns
  the opening lines \<open>BEGIN:VCARD\<close> and \<open>VERSION:4.0\<close>, then one line for every
  named field whose value is neither absent nor empty, in the fixed field order, and
  no line for the others; then one
  \<open>KEY;TYPE=public;ALG=...;PREF=...;ENCODING=...:\<close> line per key, \<open>PREF\<close> being 1
  when the key gives none; then one \<open>name:value\<close> line per custom attribute, also
  when the value is empty; then \<open>END:VCARD\<close>.
\<close>

theorem build_vcard_content_renders:
  assumes "list_all key_complete (case v_keys a of None \<Rightarrow> [] | Some ks \<Rightarrow> ks)"
  shows "build_vcard_content a = Inr (rendered a)"
proof -
  have fields: "concat (map rendered_field (filter populated (named_fields a)))
      = field_line (str ''FN:'') (v_fn a) (str ''\<newline>'')
            @ field_line (str ''N:'') (v_n a) (str '';;;;\<newline>'')
            @ field_line (str ''NICKNAME:'') (v_nickname a) (str ''\<newline>'')
            @ field_line (str ''LANG:'') (v_lang a) (str ''\<newline>'')
            @ field_line (str ''GENDER:'') (v_gender a) (str ''\<newline>'')
            @ field_line (str ''EMAIL:'') (v_email a) (str ''\<newline>'')
            @ field_line (str ''CATEGORIES:'') (v_categories a) (str ''\<newline>'')
            @ field_line (str ''BDAY:'') (v_bday a) (str ''\<newline>'')
            @ field_line (str ''ANNIVERSARY:'') (v_anniversary a) (str ''\<newline>'')
            @ field_line (str ''KIND:'') (v_kind a) (str ''\<newline>'')
            @ field_line (str ''ADR:'') (v_adr a) (str ''\<newline>'')
            @ field_line (str ''TEL:'') (v_tel a) (str ''\<newline>'')
            @ field_line (str ''IMPP:'') (v_impp a) (str ''\<newline>'')
            @ field_line (str ''PHOTO:'') (v_photo a) (str ''\<newline>'')
            @ field_line (str ''NOTE;LANGUAGE=en-US:'') (v_note a) (str ''\<newline>'')
            @ field_line (str ''URL:'') (v_url a) (str ''\<newline>'')
            @ field_line (str ''SOURCE:'') (v_source a) (str ''\<newline>'')"
    unfolding named_fields_def
    by (simp only: rendered_fields_Cons rendered_fields_Nil append_Nil2)
  show ?thesis
    unfolding build_vcard_content_def rendered_def fields Let_def
    by (simp only: key_lines_complete [OF assms] bind_simps append_assoc)
qed

text \<open>The definitions that evaluate the builder on concrete arguments.\<close>

lemmas builder_defs = build_vcard_content_def default_args_def field_line_def key_line_def
  subscript_def custom_line_def str_int_def int_max_str_digits_def digits10.simps
  str_def lower_def

text \<open>
  Claim C9, as stated, fails: a custom attribute with an empty value gives the
  empty-value line \<open>X-FOO:\<close>, and a key without the entry \<open>encoding\<close> makes the
  builder raise \<open>KeyError\<close>.
\<close>

theorem build_vcard_content_counterexample:
  "build_vcard_content (default_args\<lparr>v_custom_attributes := Some [(str ''X-FOO'', [])]\<rparr>)
     = Inr (str ''BEGIN:VCARD\<newline>VERSION:4.0\<newline>X-FOO:\<newline>END:VCARD'')
   \<and> build_vcard_content (default_args\<lparr>v_keys := Some
         [\<lparr>kd_alg = Some (str ''ed25519''), kd_key_b64 = Some (str ''AAAA''),
           kd_pref = Some 1, kd_encoding = None\<rparr>]\<rparr>)
     = Inl (KeyError (str ''encoding''))"
  by (simp add: builder_defs)

text \<open>
  The theorem at a name, an empty \<open>n\<close>, a note, one key without \<open>pref\<close> and one
  custom attribute.
\<close>

theorem build_vcard_content_renders_witness:
  "build_vcard_content (default_args\<lparr>v_fn := Some (str ''Ann''), v_n := Some [],
       v_note := Some (str ''hi''),
       v_custom_attributes := Some [(str ''X-FEED'', str ''https://x'')],
       v_keys := Some [\<lparr>kd_alg = Some (str ''ED25519''), kd_key_b64 = Some (str ''AAAA''),
                        kd_pref = None, kd_encoding = Some (str ''b'')\<rparr>]\<rparr>)
     = Inr (str ''BEGIN:VCARD\<newline>VERSION:4.0\<newline>FN:Ann\<newline>NOTE;LANGUAGE=en-US:hi\<newline>KEY;TYPE=public;ALG=ed25519;PREF=1;ENCODING=b:AAAA\<newline>X-FEED:https://x\<newline>END:VCARD'')"
proof -
  let ?k = "\<lparr>kd_alg = Some (str ''ED25519''), kd_key_b64 = Some (str ''AAAA''),
             kd_pref = None, kd_encoding = Some (str ''b'')\<rparr>"
  let ?a = "default_args\<lparr>v_fn := Some (str ''Ann''), v_n := Some [],
       v_note := Some (str ''hi''),
       v_custom_attributes := Some [(str ''X-FEED'', str ''https://x'')],
       v_keys := Some [?k]\<rparr>"
  have k: "list_all key_complete (case v_keys ?a of None \<Rightarrow> [] | Some ks \<Rightarrow> ks)"
    by (simp add: key_complete_def is_ascii_def builder_defs)
  have r: "rendered ?a = str ''BEGIN:VCARD\<newline>VERSION:4.0\<newline>FN:Ann\<newline>NOTE;LANGUAGE=en-US:hi\<newline>KEY;TYPE=public;ALG=ed25519;PREF=1;ENCODING=b:AAAA\<newline>X-FEED:https://x\<newline>END:VCARD''"
    by (simp add: rendered_def named_fields_def populated_def rendered_field_def rendered_key_def
        truthy_def format_opt_def builder_defs)
  show ?thesis using build_vcard_content_renders [OF k] r by simp
qed

section \<open>Properties of the feed builder\<close>

lemma rss_step_unsigned:
  assumes "l_signature_value st = None"
  shows "rss_step nfkd link author None st item =
     (if \<not> truthy (item_id item) \<and> item_path item = None then Inl (KeyError (str ''path''))
      else if item_date item = None then Inl (KeyError (str ''date''))
      else Inl (UnboundLocalError (str ''signature_value'')))"
  using assms
  by (auto simp: rss_step_def subscript_def extension_def read_local_def Let_def
      split: option.splits)

text \<open>
  With \<open>sign = None\<close> every call on a non-empty list of items raises in the first
  pass: \<open>KeyError\<close> for a missing \<open>path\<close> or \<open>date\<close>, else \<open>UnboundLocalError\<close>.
\<close>

lemma generate_rss_unsigned_raises:
  "generate_rss nfkd title link description author language build_date (item # items) None =
     (if \<not> truthy (item_id item) \<and> item_path item = None then Inl (KeyError (str ''path''))
      else if item_date item = None then Inl (KeyError (str ''date''))
      else Inl (UnboundLocalError (str ''signature_value'')))"
  by (simp add: generate_rss_def rss_step_unsigned)

text \<open>
  Claim C8 against the code: with \<open>sign = None\<close> and one well-formed item, the first
  pass of the loop reads \<open>signature_value\<close>, which was never assigned, and
  \<open>generate_rss\<close> raises \<open>UnboundLocalError\<close> instead of emitting the item without
  a signature extension.
\<close>

theorem generate_rss_unsigned_failing_input:
  "generate_rss nfkd (str ''Feed'') (str ''https://example.com'') (str ''About'')
     (str ''Ann'', str ''ann@example.com'') (str ''en-US'') (str ''2025-01-02'')
     [\<lparr>item_id = Some (str ''a''), item_path = None, item_date = Some (str ''2025-01-01''),
       item_content = Some (str ''World''), item_title = Some (str ''Hello''),
       item_link = None\<rparr>]
     None
   = Inl (UnboundLocalError (str ''signature_value''))"
  by (simp add: generate_rss_def rss_step_def subscript_def extension_def read_local_def
      truthy_def format_opt_def str_def)

text \<open>
  With a signing context, a pass appends an item whose extension carries the hex
  signature of the canonical bytes and the key identifier.
\<close>

lemma rss_step_signed:
  assumes id: "truthy (item_id item)" and d: "item_date item = Some pub_date"
    and c: "canonical_feed_string pub_date (format_opt (item_title item))
              (format_opt (item_content item)) = Inr canonical"
    and sg: "key canonical \<noteq> []" and kid: "kid \<noteq> []"
  shows "\<exists>it. rss_step nfkd link author (Some \<lparr>sign_key = Some key, sign_id = Some kid\<rparr>) st item
           = Inr (st\<lparr>l_description := item_content item, l_title := item_title item,
                     l_signature_value := Some (Some (hex (key canonical))),
                     l_signature_id := Some (Some kid),
                     l_feed_items := l_feed_items st @ [it]\<rparr>)
         \<and> i_extensions it = [Some \<lparr>signature_value = hex (key canonical), key_id = Some kid\<rparr>]"
proof -
  from sg have "hex (key canonical) \<noteq> []"
    by (cases "key canonical") (simp_all add: hex_def)
  with assms show ?thesis
    by (auto simp: rss_step_def subscript_def extension_def read_local_def sign_item_def
        sign_feed_item_def truthy_def Let_def)
qed

end
